theory Spec2Isabelle
  imports Main "HOL-Library.Word"
begin

section \<open>Data model of \<open>utils/bluetooth.ts\<close>\<close>

text \<open>
  The adapter module keeps four module-scoped handles and a callback registry, and every
  exported function is an \<open>async\<close> wrapper around the Web Bluetooth API. The embedding
  passes the module state explicitly (record \<open>world\<close>), returns a thrown error as
  \<open>Inl\<close> of a sum, and takes what the platform answers at each \<open>await\<close> as an argument
  of the operation. Each operation is modelled as running from its call to the settling of
  its promise with no other operation and no platform event delivered between its
  \<open>await\<close>s; \<open>connectToArduino_events\<close> is \<open>connectToArduino\<close> with the disconnection
  events that arrive while the call is suspended. Calls to \<open>console.log\<close>,
  \<open>console.warn\<close> and \<open>console.error\<close> are left out.
\<close>

type_synonym js_string = "16 word list"
  \<comment> \<open>a JavaScript string: its UTF-16 code units\<close>

type_synonym bytes = "8 word list"

text \<open>\<open>interface BluetoothDevice\<close> (lines 4 to 8); \<open>id\<close> and \<open>name\<close> are only copied.\<close>

record BluetoothDevice =
  device_id :: string
  device_name :: string
  connected :: bool

text \<open>
  The errors the module creates itself, one constructor for each \<open>new Error\<close> of the
  file, the error the language throws when the module reads a property of a handle that
  is \<open>null\<close>, and the rejection of a platform promise, which carries the platform's
  message.
\<close>

datatype bt_error =
    NotSupported        \<comment> \<open>line 54\<close>
  | ApiUnavailable      \<comment> \<open>line 65\<close>
  | NotConnected        \<comment> \<open>line 137\<close>
  | NoPriorDevice       \<comment> \<open>line 186\<close>
  | TypeError           \<comment> \<open>a property of \<open>null\<close> is read\<close>
  | PlatformError string

text \<open>
  The platform objects behind the handles, typed \<open>any\<close> in the source. Of the device
  object the module reads \<open>id\<close>, \<open>name\<close> (which may be missing) and \<open>gatt.connected\<close>;
  the server, service and characteristic objects are opaque.
\<close>

record gatt_device =
  gid :: string
  gname :: "string option"
  gatt_connected :: bool

datatype gatt_server = Server nat
datatype gatt_service = Service nat
datatype gatt_characteristic = Characteristic nat

text \<open>
  \<open>interface BluetoothConnectionCallbacks\<close> (lines 29 to 34). Every property is
  optional: it can be absent from the object, present with the value \<open>undefined\<close>, or
  present with a handler. A handler acts on the state \<open>'u\<close> of the client that
  registered it.
\<close>

datatype 'a slot = Absent | Undefined | Handler 'a

record 'u BluetoothConnectionCallbacks =
  onConnected :: "(BluetoothDevice \<Rightarrow> 'u \<Rightarrow> 'u) slot"
  onDisconnected :: "('u \<Rightarrow> 'u) slot"
  onError :: "(bt_error \<Rightarrow> 'u \<Rightarrow> 'u) slot"
  onDataReceived :: "(js_string \<Rightarrow> 'u \<Rightarrow> 'u) slot"

datatype cb_key = OnConnected | OnDisconnected | OnError | OnDataReceived

text \<open>The own keys of a callbacks object.\<close>

definition keys :: "'u BluetoothConnectionCallbacks \<Rightarrow> cb_key set" where
  "keys c =
     (if onConnected c = Absent then {} else {OnConnected}) \<union>
     (if onDisconnected c = Absent then {} else {OnDisconnected}) \<union>
     (if onError c = Absent then {} else {OnError}) \<union>
     (if onDataReceived c = Absent then {} else {OnDataReceived})"

text \<open>
  What the module calls on the platform and which registered callbacks it invokes are
  recorded, in order, in a trace.
\<close>

datatype event =
    RequestDevice
  | AddDisconnectListener
  | GattConnect
  | GetPrimaryService
  | GetCharacteristic
  | StartNotifications
  | AddValueListener
  | WriteValue gatt_characteristic bytes
  | GattDisconnect
  | CbConnected BluetoothDevice
  | CbDisconnected
  | CbError bt_error
  | CbDataReceived js_string

text \<open>
  The module-scoped variables of lines 24 to 27 and 36, the state of the client whose
  handlers are registered, and the trace.
\<close>

record 'u world =
  bluetoothDevice :: "gatt_device option"
  bluetoothServer :: "gatt_server option"
  bluetoothService :: "gatt_service option"
  bluetoothCharacteristic :: "gatt_characteristic option"
  callbacks :: "'u BluetoothConnectionCallbacks"
  client :: 'u
  trace :: "event list"

text \<open>The state at module load: every handle \<open>null\<close>, \<open>callbacks = {}\<close>.\<close>

definition no_callbacks :: "'u BluetoothConnectionCallbacks" where
  "no_callbacks =
     \<lparr>onConnected = Absent, onDisconnected = Absent, onError = Absent,
      onDataReceived = Absent\<rparr>"

definition initial :: "'u \<Rightarrow> 'u world" where
  "initial u =
     \<lparr>bluetoothDevice = None, bluetoothServer = None, bluetoothService = None,
      bluetoothCharacteristic = None, callbacks = no_callbacks, client = u, trace = []\<rparr>"

definition handles_null :: "'u world \<Rightarrow> bool" where
  "handles_null w \<longleftrightarrow>
     bluetoothDevice w = None \<and> bluetoothServer w = None \<and>
     bluetoothService w = None \<and> bluetoothCharacteristic w = None"

section \<open>The callback registry\<close>

text \<open>
  Object spread \<open>{ ...a, ...b }\<close>: a key of \<open>b\<close> wins, also when its value is
  \<open>undefined\<close>; a key \<open>b\<close> does not have keeps what \<open>a\<close> has.
\<close>

definition spread_slot :: "'a slot \<Rightarrow> 'a slot \<Rightarrow> 'a slot" where
  "spread_slot a b = (case b of Absent \<Rightarrow> a | Undefined \<Rightarrow> Undefined | Handler h \<Rightarrow> Handler h)"

definition spread ::
  "'u BluetoothConnectionCallbacks \<Rightarrow> 'u BluetoothConnectionCallbacks \<Rightarrow>
   'u BluetoothConnectionCallbacks" where
  "spread a b =
     \<lparr>onConnected = spread_slot (onConnected a) (onConnected b),
      onDisconnected = spread_slot (onDisconnected a) (onDisconnected b),
      onError = spread_slot (onError a) (onError b),
      onDataReceived = spread_slot (onDataReceived a) (onDataReceived b)\<rparr>"

text \<open>\<open>setBluetoothCallbacks\<close>, lines 38 to 40.\<close>

definition setBluetoothCallbacks ::
  "'u BluetoothConnectionCallbacks \<Rightarrow> 'u world \<Rightarrow> 'u world" where
  "setBluetoothCallbacks newCallbacks w =
     w\<lparr>callbacks := spread (callbacks w) newCallbacks\<rparr>"

text \<open>
  \<open>callbacks.onX?.(arg)\<close>: the handler runs when the property holds one, and nothing
  happens otherwise.
\<close>

definition call_onConnected :: "BluetoothDevice \<Rightarrow> 'u world \<Rightarrow> 'u world" where
  "call_onConnected device w =
     (case onConnected (callbacks w) of
        Handler h \<Rightarrow> w\<lparr>client := h device (client w), trace := trace w @ [CbConnected device]\<rparr>
      | _ \<Rightarrow> w)"

definition call_onDisconnected :: "'u world \<Rightarrow> 'u world" where
  "call_onDisconnected w =
     (case onDisconnected (callbacks w) of
        Handler h \<Rightarrow> w\<lparr>client := h (client w), trace := trace w @ [CbDisconnected]\<rparr>
      | _ \<Rightarrow> w)"

definition call_onError :: "bt_error \<Rightarrow> 'u world \<Rightarrow> 'u world" where
  "call_onError e w =
     (case onError (callbacks w) of
        Handler h \<Rightarrow> w\<lparr>client := h e (client w), trace := trace w @ [CbError e]\<rparr>
      | _ \<Rightarrow> w)"

definition call_onDataReceived :: "js_string \<Rightarrow> 'u world \<Rightarrow> 'u world" where
  "call_onDataReceived s w =
     (case onDataReceived (callbacks w) of
        Handler h \<Rightarrow> w\<lparr>client := h s (client w), trace := trace w @ [CbDataReceived s]\<rparr>
      | _ \<Rightarrow> w)"

definition platform_call :: "event \<Rightarrow> 'u world \<Rightarrow> 'u world" where
  "platform_call ev w = w\<lparr>trace := trace w @ [ev]\<rparr>"

section \<open>The platform's text encoder\<close>

text \<open>
  \<open>new TextEncoder().encode(data)\<close> is platform code. It is modelled after the Encoding
  standard: the code units are read as UTF-16, a surrogate that is not part of a pair
  becomes U+FFFD, and each scalar value is written in one to four bytes.
\<close>

definition is_high_surrogate :: "16 word \<Rightarrow> bool" where
  "is_high_surrogate u \<longleftrightarrow> 0xD800 \<le> u \<and> u \<le> 0xDBFF"

definition is_low_surrogate :: "16 word \<Rightarrow> bool" where
  "is_low_surrogate u \<longleftrightarrow> 0xDC00 \<le> u \<and> u \<le> 0xDFFF"

fun scalar_values :: "js_string \<Rightarrow> nat list" where
  "scalar_values [] = []"
| "scalar_values [u] =
     (if is_high_surrogate u \<or> is_low_surrogate u then [0xFFFD] else [unat u])"
| "scalar_values (u # v # us) =
     (if is_high_surrogate u \<and> is_low_surrogate v
      then (0x10000 + (unat u - 0xD800) * 0x400 + (unat v - 0xDC00)) # scalar_values us
      else if is_high_surrogate u \<or> is_low_surrogate u then 0xFFFD # scalar_values (v # us)
      else unat u # scalar_values (v # us))"

definition utf8_scalar :: "nat \<Rightarrow> bytes" where
  "utf8_scalar c =
     (if c < 0x80 then [of_nat c]
      else if c < 0x800 then [of_nat (0xC0 + c div 0x40), of_nat (0x80 + c mod 0x40)]
      else if c < 0x10000 then
        [of_nat (0xE0 + c div 0x1000), of_nat (0x80 + c div 0x40 mod 0x40),
         of_nat (0x80 + c mod 0x40)]
      else
        [of_nat (0xF0 + c div 0x40000), of_nat (0x80 + c div 0x1000 mod 0x40),
         of_nat (0x80 + c div 0x40 mod 0x40), of_nat (0x80 + c mod 0x40)])"

definition TextEncoder_encode :: "js_string \<Rightarrow> bytes" where
  "TextEncoder_encode data = concat (map utf8_scalar (scalar_values data))"

section \<open>The adapter module\<close>

text \<open>
  What the platform answers during one call. \<open>gatt_platform\<close> holds the outcome of the
  four awaited GATT calls (\<open>gatt.connect()\<close>, \<open>getPrimaryService\<close>, \<open>getCharacteristic\<close>,
  \<open>startNotifications\<close>); \<open>connect_platform\<close> adds whether \<open>navigator.bluetooth\<close> exists
  and the outcome of the device chooser. A rejected promise is \<open>Inl\<close> of the
  platform's message, which the module receives as the error \<open>PlatformError\<close> of it.
\<close>

type_synonym rejection = string

record gatt_platform =
  gatt_connect :: "rejection + gatt_server"
  getPrimaryService :: "rejection + gatt_service"
  getCharacteristic :: "rejection + gatt_characteristic"
  startNotifications :: "rejection option"

record connect_platform = gatt_platform +
  navigator_bluetooth :: bool
  requestDevice :: "rejection + gatt_device"

text \<open>\<open>isBluetoothSupported\<close>, lines 43 to 49, given whether \<open>navigator.bluetooth\<close> exists.\<close>

definition isBluetoothSupported :: "bool \<Rightarrow> bool" where
  "isBluetoothSupported bluetooth = (if \<not> bluetooth then False else True)"

text \<open>\<open>bluetoothDevice.name || 'Arduino'\<close>: a missing or empty name gives the default.\<close>

definition name_or_default :: "gatt_device \<Rightarrow> string" where
  "name_or_default d =
     (case gname d of None \<Rightarrow> ''Arduino'' | Some n \<Rightarrow> if n = [] then ''Arduino'' else n)"

text \<open>
  The internal disconnection handler \<open>onDisconnected\<close>, lines 162 to 170 (the suffix
  keeps it apart from the registry key of the same name).
\<close>

definition onDisconnected_listener :: "'u world \<Rightarrow> 'u world" where
  "onDisconnected_listener w =
     (call_onDisconnected w)
       \<lparr>bluetoothDevice := None, bluetoothServer := None, bluetoothService := None,
        bluetoothCharacteristic := None\<rparr>"

text \<open>
  \<open>handleCharacteristicValueChanged\<close>, lines 152 to 159; \<open>data\<close> is the string that
  the platform's \<open>TextDecoder('utf-8')\<close> makes of the event's value.
\<close>

definition handleCharacteristicValueChanged :: "js_string \<Rightarrow> 'u world \<Rightarrow> 'u world" where
  "handleCharacteristicValueChanged data w = call_onDataReceived data w"

text \<open>
  Lines 87 to 108 of \<open>connectToArduino\<close> and lines 191 to 205 of \<open>reconnectToArduino\<close> are
  the same statements: await the GATT connection, the service, the characteristic and the
  subscription, assigning each handle as soon as its promise resolves, then build the
  Device Record and invoke \<open>onConnected\<close>. \<open>d\<close> is the device object that
  \<open>bluetoothDevice\<close> holds; a resolved \<open>gatt.connect()\<close> makes its \<open>gatt.connected\<close> true.
  The first rejection leaves the sequence with the handles assigned so far.
\<close>

definition open_gatt ::
  "'p gatt_platform_scheme \<Rightarrow> gatt_device \<Rightarrow> 'u world \<Rightarrow> (bt_error + BluetoothDevice) \<times> 'u world"
  where
  "open_gatt p d w =
     (let w0 = platform_call GattConnect w in
      case gatt_connect p of
        Inl m \<Rightarrow> (Inl (PlatformError m), w0)
      | Inr server \<Rightarrow>
          let d1 = d\<lparr>gatt_connected := True\<rparr>;
              w1 = platform_call GetPrimaryService
                     (w0\<lparr>bluetoothDevice := Some d1, bluetoothServer := Some server\<rparr>)
          in case getPrimaryService p of
            Inl m \<Rightarrow> (Inl (PlatformError m), w1)
          | Inr service \<Rightarrow>
              let w2 = platform_call GetCharacteristic (w1\<lparr>bluetoothService := Some service\<rparr>)
              in case getCharacteristic p of
                Inl m \<Rightarrow> (Inl (PlatformError m), w2)
              | Inr characteristic \<Rightarrow>
                  let w3 = platform_call StartNotifications
                             (w2\<lparr>bluetoothCharacteristic := Some characteristic\<rparr>)
                  in case startNotifications p of
                    Some m \<Rightarrow> (Inl (PlatformError m), w3)
                  | None \<Rightarrow>
                      let w4 = platform_call AddValueListener w3;
                          device = \<lparr>device_id = gid d1, device_name = name_or_default d1,
                                    connected = True\<rparr>
                      in (Inr device, call_onConnected device w4))"

text \<open>The \<open>catch\<close> blocks of lines 109 to 113 and 206 to 210: notify \<open>onError\<close>, rethrow.\<close>

definition catch_notify ::
  "(bt_error + 'a) \<times> 'u world \<Rightarrow> (bt_error + 'a) \<times> 'u world" where
  "catch_notify rw =
     (case fst rw of
        Inl e \<Rightarrow> (Inl e, call_onError e (snd rw))
      | Inr v \<Rightarrow> (Inr v, snd rw))"

text \<open>The \<open>try\<close> block of \<open>connectToArduino\<close>, lines 60 to 108.\<close>

definition connect_try ::
  "'p connect_platform_scheme \<Rightarrow> 'u world \<Rightarrow> (bt_error + BluetoothDevice) \<times> 'u world" where
  "connect_try p w =
     (if \<not> navigator_bluetooth p then (Inl ApiUnavailable, call_onError ApiUnavailable w)
      else
        let w0 = platform_call RequestDevice w in
        case requestDevice p of
          Inl m \<Rightarrow> (Inl (PlatformError m), w0)
        | Inr d \<Rightarrow>
            open_gatt p d (platform_call AddDisconnectListener (w0\<lparr>bluetoothDevice := Some d\<rparr>)))"

text \<open>\<open>connectToArduino\<close>, lines 52 to 114.\<close>

definition connectToArduino ::
  "'p connect_platform_scheme \<Rightarrow> 'u world \<Rightarrow> (bt_error + BluetoothDevice) \<times> 'u world" where
  "connectToArduino p w =
     (if \<not> isBluetoothSupported (navigator_bluetooth p)
      then (Inl NotSupported, call_onError NotSupported w)
      else catch_notify (connect_try p w))"

text \<open>
  \<open>connectToArduino\<close> is suspended at five \<open>await\<close>s, and the platform can dispatch
  \<open>gattserverdisconnected\<close> to the listener \<open>onDisconnected\<close> while it is: to the
  listener a former connect added while the chooser is open, and to the listener of line
  83 during the four GATT calls. \<open>connect_events\<close> says at which of the \<open>await\<close>s that
  happens; the event is handled before the awaited promise settles.
\<close>

record connect_events =
  drop_in_requestDevice :: bool
  drop_in_gatt_connect :: bool
  drop_in_getPrimaryService :: bool
  drop_in_getCharacteristic :: bool
  drop_in_startNotifications :: bool

definition no_events :: connect_events where
  "no_events =
     \<lparr>drop_in_requestDevice = False, drop_in_gatt_connect = False,
      drop_in_getPrimaryService = False, drop_in_getCharacteristic = False,
      drop_in_startNotifications = False\<rparr>"

definition deliver :: "bool \<Rightarrow> 'u world \<Rightarrow> 'u world" where
  "deliver dropped w = (if dropped then onDisconnected_listener w else w)"

text \<open>
  The \<open>try\<close> block of lines 60 to 108 with the events. Each statement reads the module
  variables as they are when it runs: line 87 to 96 call a method on the handle assigned
  just before, which is not \<open>null\<close>; line 97 reads \<open>bluetoothCharacteristic\<close> after the last
  \<open>await\<close> and line 100 reads \<open>bluetoothDevice\<close>, and either throws a \<open>TypeError\<close>
  when the listener has set the variable to \<open>null\<close>. A resolved \<open>gatt.connect()\<close> makes
  \<open>gatt.connected\<close> true on the device object, which the module sees if it still holds it.
\<close>

definition connect_try_events ::
  "'p connect_platform_scheme \<Rightarrow> connect_events \<Rightarrow> 'u world \<Rightarrow>
   (bt_error + BluetoothDevice) \<times> 'u world" where
  "connect_try_events p ev w =
     (if \<not> navigator_bluetooth p then (Inl ApiUnavailable, call_onError ApiUnavailable w)
      else
        let w0 = deliver (drop_in_requestDevice ev) (platform_call RequestDevice w) in
        case requestDevice p of
          Inl m \<Rightarrow> (Inl (PlatformError m), w0)
        | Inr d \<Rightarrow>
            let w1 = deliver (drop_in_gatt_connect ev)
                       (platform_call GattConnect
                          (platform_call AddDisconnectListener
                             (w0\<lparr>bluetoothDevice := Some d\<rparr>)))
            in case gatt_connect p of
              Inl m \<Rightarrow> (Inl (PlatformError m), w1)
            | Inr server \<Rightarrow>
                let w2 = deliver (drop_in_getPrimaryService ev)
                           (platform_call GetPrimaryService
                              (w1\<lparr>bluetoothDevice :=
                                     map_option (\<lambda>dv. dv\<lparr>gatt_connected := True\<rparr>)
                                       (bluetoothDevice w1),
                                   bluetoothServer := Some server\<rparr>))
                in case getPrimaryService p of
                  Inl m \<Rightarrow> (Inl (PlatformError m), w2)
                | Inr service \<Rightarrow>
                    let w3 = deliver (drop_in_getCharacteristic ev)
                               (platform_call GetCharacteristic
                                  (w2\<lparr>bluetoothService := Some service\<rparr>))
                    in case getCharacteristic p of
                      Inl m \<Rightarrow> (Inl (PlatformError m), w3)
                    | Inr characteristic \<Rightarrow>
                        let w4 = deliver (drop_in_startNotifications ev)
                                   (platform_call StartNotifications
                                      (w3\<lparr>bluetoothCharacteristic := Some characteristic\<rparr>))
                        in case startNotifications p of
                          Some m \<Rightarrow> (Inl (PlatformError m), w4)
                        | None \<Rightarrow>
                            (case bluetoothCharacteristic w4 of
                               None \<Rightarrow> (Inl TypeError, w4)
                             | Some c \<Rightarrow>
                                 let w5 = platform_call AddValueListener w4 in
                                 (case bluetoothDevice w5 of
                                    None \<Rightarrow> (Inl TypeError, w5)
                                  | Some dv \<Rightarrow>
                                      let device = \<lparr>device_id = gid dv,
                                                    device_name = name_or_default dv,
                                                    connected = True\<rparr>
                                      in (Inr device, call_onConnected device w5))))"

definition connectToArduino_events ::
  "'p connect_platform_scheme \<Rightarrow> connect_events \<Rightarrow> 'u world \<Rightarrow>
   (bt_error + BluetoothDevice) \<times> 'u world" where
  "connectToArduino_events p ev w =
     (if \<not> isBluetoothSupported (navigator_bluetooth p)
      then (Inl NotSupported, call_onError NotSupported w)
      else catch_notify (connect_try_events p ev w))"

text \<open>
  Whether an event arrives at an \<open>await\<close> that the call reaches after the chooser has
  resolved: the call reaches the next \<open>await\<close> only when the promise before it resolves.
\<close>

definition dropped_after_chooser :: "'p connect_platform_scheme \<Rightarrow> connect_events \<Rightarrow> bool" where
  "dropped_after_chooser p ev \<longleftrightarrow>
     drop_in_gatt_connect ev \<or>
     \<not> isl (gatt_connect p) \<and>
       (drop_in_getPrimaryService ev \<or>
        \<not> isl (getPrimaryService p) \<and>
          (drop_in_getCharacteristic ev \<or>
           \<not> isl (getCharacteristic p) \<and> drop_in_startNotifications ev))"

text \<open>
  \<open>bluetoothDevice.gatt.disconnect()\<close> on a connected device: the platform closes the
  link, and \<open>fires\<close> says whether it dispatches \<open>gattserverdisconnected\<close> to the
  listener of line 83 before the call returns.
\<close>

definition gatt_disconnect :: "bool \<Rightarrow> gatt_device \<Rightarrow> 'u world \<Rightarrow> 'u world" where
  "gatt_disconnect fires d w =
     (let w' = platform_call GattDisconnect
                 (w\<lparr>bluetoothDevice := Some (d\<lparr>gatt_connected := False\<rparr>)\<rparr>)
      in if fires then onDisconnected_listener w' else w')"

text \<open>\<open>disconnectFromArduino\<close>, lines 117 to 127.\<close>

definition disconnectFromArduino :: "bool \<Rightarrow> 'u world \<Rightarrow> 'u world" where
  "disconnectFromArduino fires w =
     (let w' = (case bluetoothDevice w of
                  Some d \<Rightarrow> if gatt_connected d then gatt_disconnect fires d w else w
                | None \<Rightarrow> w)
      in w'\<lparr>bluetoothDevice := None, bluetoothServer := None, bluetoothService := None,
            bluetoothCharacteristic := None\<rparr>)"

text \<open>\<open>isConnected\<close>, lines 130 to 132 (\<open>null\<close>, which it returns without a device, is false).\<close>

definition isConnected :: "'u world \<Rightarrow> bool" where
  "isConnected w = (case bluetoothDevice w of None \<Rightarrow> False | Some d \<Rightarrow> gatt_connected d)"

text \<open>
  \<open>sendToArduino\<close>, lines 135 to 149; \<open>written\<close> is the outcome of the awaited
  \<open>writeValue\<close> (\<open>None\<close> when it resolves).
\<close>

definition sendToArduino ::
  "js_string \<Rightarrow> rejection option \<Rightarrow> 'u world \<Rightarrow> (bt_error + unit) \<times> 'u world" where
  "sendToArduino data written w =
     (case bluetoothCharacteristic w of
        None \<Rightarrow> (Inl NotConnected, w)
      | Some c \<Rightarrow>
          let dataArray = TextEncoder_encode data;
              w' = platform_call (WriteValue c dataArray) w
          in case written of Some m \<Rightarrow> (Inl (PlatformError m), w') | None \<Rightarrow> (Inr (), w'))"

text \<open>\<open>getCurrentDevice\<close>, lines 173 to 181.\<close>

definition getCurrentDevice :: "'u world \<Rightarrow> BluetoothDevice option" where
  "getCurrentDevice w =
     (case bluetoothDevice w of
        None \<Rightarrow> None
      | Some d \<Rightarrow>
          Some \<lparr>device_id = gid d, device_name = name_or_default d,
                connected = gatt_connected d\<rparr>)"

text \<open>\<open>reconnectToArduino\<close>, lines 184 to 211.\<close>

definition reconnectToArduino ::
  "'p gatt_platform_scheme \<Rightarrow> 'u world \<Rightarrow> (bt_error + BluetoothDevice) \<times> 'u world" where
  "reconnectToArduino p w =
     (case bluetoothDevice w of
        None \<Rightarrow> (Inl NoPriorDevice, w)
      | Some d \<Rightarrow> catch_notify (open_gatt p d w))"

section \<open>Sequences of operations\<close>

text \<open>
  A client of the module calls its exported functions one after the other, and the
  platform delivers its two events in between. Each operation carries what the platform
  answers. The events may stand anywhere in a sequence, also where no listener has been
  added yet, so the sequences cover every order the platform can produce.
\<close>

datatype 'u op =
    Register "'u BluetoothConnectionCallbacks"
  | Connect connect_platform
  | Disconnect bool
  | Reconnect gatt_platform
  | Send js_string "rejection option"
  | GattServerDisconnected
  | CharacteristicValueChanged js_string

fun step :: "'u op \<Rightarrow> 'u world \<Rightarrow> 'u world" where
  "step (Register c) w = setBluetoothCallbacks c w"
| "step (Connect p) w = snd (connectToArduino p w)"
| "step (Disconnect fires) w = disconnectFromArduino fires w"
| "step (Reconnect p) w = snd (reconnectToArduino p w)"
| "step (Send data written) w = snd (sendToArduino data written w)"
| "step GattServerDisconnected w = onDisconnected_listener w"
| "step (CharacteristicValueChanged data) w = handleCharacteristicValueChanged data w"

fun run :: "'u op list \<Rightarrow> 'u world \<Rightarrow> 'u world" where
  "run [] w = w"
| "run (x # xs) w = run xs (step x w)"

text \<open>A connect or reconnect whose every awaited platform call resolves.\<close>

definition gatt_succeeds :: "'p gatt_platform_scheme \<Rightarrow> bool" where
  "gatt_succeeds p \<longleftrightarrow>
     \<not> isl (gatt_connect p) \<and> \<not> isl (getPrimaryService p) \<and> \<not> isl (getCharacteristic p) \<and>
     startNotifications p = None"

definition connect_succeeds :: "'p connect_platform_scheme \<Rightarrow> bool" where
  "connect_succeeds p \<longleftrightarrow> navigator_bluetooth p \<and> \<not> isl (requestDevice p) \<and> gatt_succeeds p"

section \<open>The onboarding screen\<close>

text \<open>
  \<open>BluetoothScreen\<close>: its \<open>useState\<close> cells, the handlers it registers (lines 31 to 50)
  and \<open>handleConnect\<close> (lines 62 to 74). \<open>stateLog\<close> is not in the source: it lists the
  argument of every \<open>setConnectionState\<close> call, oldest first. The \<open>error\<close> cell holds
  the error whose message the source stores. State updates take effect in the order of
  the calls, so the cell holds what the last call set.
\<close>

datatype ConnectionState = Idle | Searching | Connecting | Connected | Failed
  \<comment> \<open>\<open>"idle" | "searching" | "connecting" | "connected" | "error"\<close>\<close>

record screen =
  connectionState :: ConnectionState
  connectedDevice :: "BluetoothDevice option"
  error :: "bt_error option"
  stateLog :: "ConnectionState list"

definition initial_screen :: screen where
  "initial_screen = \<lparr>connectionState = Idle, connectedDevice = None, error = None, stateLog = []\<rparr>"

definition setConnectionState :: "ConnectionState \<Rightarrow> screen \<Rightarrow> screen" where
  "setConnectionState s scr = scr\<lparr>connectionState := s, stateLog := stateLog scr @ [s]\<rparr>"

definition screen_callbacks :: "screen BluetoothConnectionCallbacks" where
  "screen_callbacks =
     \<lparr>onConnected = Handler (\<lambda>device scr.
        (setConnectionState Connected (scr\<lparr>connectedDevice := Some device\<rparr>))\<lparr>error := None\<rparr>),
      onDisconnected = Handler (\<lambda>scr.
        (setConnectionState Idle scr)\<lparr>connectedDevice := None\<rparr>),
      onError = Handler (\<lambda>err scr.
        setConnectionState Failed (scr\<lparr>error := Some err\<rparr>)),
      onDataReceived = Absent\<rparr>"

definition handleConnect :: "'p connect_platform_scheme \<Rightarrow> screen world \<Rightarrow> screen world" where
  "handleConnect p w =
     (let w1 = w\<lparr>client := (setConnectionState Searching (client w))\<lparr>error := None\<rparr>\<rparr>;
          rw = connectToArduino p w1
      in case fst rw of
           Inr device \<Rightarrow> (snd rw)\<lparr>client := setConnectionState Connecting (client (snd rw))\<rparr>
         | Inl err \<Rightarrow>
             (snd rw)\<lparr>client := setConnectionState Failed ((client (snd rw))\<lparr>error := Some err\<rparr>)\<rparr>)"

text \<open>
  The effect of lines 53 to 60 arms the timer that calls \<open>onNext\<close> only while the
  state is \<open>"connected"\<close>.
\<close>

definition auto_advance_armed :: "screen \<Rightarrow> bool" where
  "auto_advance_armed scr \<longleftrightarrow> connectionState scr = Connected"

definition mounted_screen :: "screen world" where
  "mounted_screen = setBluetoothCallbacks screen_callbacks (initial initial_screen)"

section \<open>Concrete platforms and states\<close>

text \<open>
  A peripheral named Lumi, not yet connected; a platform on which every step of a connect
  resolves; one on which only the subscription is rejected (a characteristic that can be
  written but does not notify); and one without \<open>navigator.bluetooth\<close>.
\<close>

definition lumi :: gatt_device where
  "lumi = \<lparr>gid = ''lumi-01'', gname = Some ''Lumi'', gatt_connected = False\<rparr>"

definition all_resolve :: connect_platform where
  "all_resolve =
     \<lparr>gatt_connect = Inr (Server 1), getPrimaryService = Inr (Service 1),
      getCharacteristic = Inr (Characteristic 1), startNotifications = None,
      navigator_bluetooth = True, requestDevice = Inr lumi\<rparr>"

definition subscription_rejected :: connect_platform where
  "subscription_rejected =
     \<lparr>gatt_connect = Inr (Server 1), getPrimaryService = Inr (Service 1),
      getCharacteristic = Inr (Characteristic 1),
      startNotifications = Some ''NotSupportedError'',
      navigator_bluetooth = True, requestDevice = Inr lumi\<rparr>"

definition service_missing :: connect_platform where
  "service_missing =
     \<lparr>gatt_connect = Inr (Server 1), getPrimaryService = Inl ''NotFoundError'',
      getCharacteristic = Inr (Characteristic 1), startNotifications = None,
      navigator_bluetooth = True, requestDevice = Inr lumi\<rparr>"

definition no_bluetooth :: connect_platform where
  "no_bluetooth =
     \<lparr>gatt_connect = Inr (Server 1), getPrimaryService = Inr (Service 1),
      getCharacteristic = Inr (Characteristic 1), startNotifications = None,
      navigator_bluetooth = False, requestDevice = Inr lumi\<rparr>"

definition gatt_resolves :: gatt_platform where
  "gatt_resolves =
     \<lparr>gatt_connect = Inr (Server 2), getPrimaryService = Inr (Service 2),
      getCharacteristic = Inr (Characteristic 2), startNotifications = None\<rparr>"

text \<open>A platform on which the GATT connection itself is rejected.\<close>

definition gatt_rejects :: gatt_platform where
  "gatt_rejects =
     \<lparr>gatt_connect = Inl ''NetworkError'', getPrimaryService = Inr (Service 2),
      getCharacteristic = Inr (Characteristic 2), startNotifications = None\<rparr>"

text \<open>
  The link is lost during the service lookup: the platform dispatches the event and then
  rejects the lookup.
\<close>

definition link_lost :: connect_platform where
  "link_lost =
     \<lparr>gatt_connect = Inr (Server 1), getPrimaryService = Inl ''NetworkError'',
      getCharacteristic = Inr (Characteristic 1), startNotifications = None,
      navigator_bluetooth = True, requestDevice = Inr lumi\<rparr>"

definition drop_in_service_lookup :: connect_events where
  "drop_in_service_lookup =
     \<lparr>drop_in_requestDevice = False, drop_in_gatt_connect = False,
      drop_in_getPrimaryService = True, drop_in_getCharacteristic = False,
      drop_in_startNotifications = False\<rparr>"

text \<open>The payload \<open>"48"\<close>.\<close>

definition payload_48 :: js_string where
  "payload_48 = [0x34, 0x38]"

text \<open>A registration that provides \<open>onDataReceived\<close> only.\<close>

definition data_only :: "screen BluetoothConnectionCallbacks" where
  "data_only =
     \<lparr>onConnected = Absent, onDisconnected = Absent, onError = Absent,
      onDataReceived = Handler (\<lambda>data scr. scr)\<rparr>"

section \<open>Observations on runs\<close>

text \<open>The callback invocations of a trace, and the operations that present the chooser.\<close>

fun is_callback :: "event \<Rightarrow> bool" where
  "is_callback (CbConnected device) = True"
| "is_callback CbDisconnected = True"
| "is_callback (CbError e) = True"
| "is_callback (CbDataReceived s) = True"
| "is_callback ev = False"

definition callback_events :: "event list \<Rightarrow> event list" where
  "callback_events tr = filter is_callback tr"

fun is_connect :: "'u op \<Rightarrow> bool" where
  "is_connect (Connect p) = True"
| "is_connect x = False"

text \<open>
  The failure that the platform's answers put in the way of a call, read off the answers
  alone: the first awaited GATT call that is rejected, and for a connect the missing API
  or the rejected chooser before that. These say which error a failing call is expected
  to hand to its caller.
\<close>

definition first_rejection :: "'p gatt_platform_scheme \<Rightarrow> rejection option" where
  "first_rejection p =
     (case gatt_connect p of
        Inl m \<Rightarrow> Some m
      | Inr server \<Rightarrow>
          (case getPrimaryService p of
             Inl m \<Rightarrow> Some m
           | Inr service \<Rightarrow>
               (case getCharacteristic p of
                  Inl m \<Rightarrow> Some m
                | Inr characteristic \<Rightarrow> startNotifications p)))"

definition connect_failure :: "'p connect_platform_scheme \<Rightarrow> bt_error option" where
  "connect_failure p =
     (if \<not> navigator_bluetooth p then Some NotSupported
      else case requestDevice p of
             Inl m \<Rightarrow> Some (PlatformError m)
           | Inr d \<Rightarrow> map_option PlatformError (first_rejection p))"

section \<open>Properties\<close>

subsection \<open>Basic facts\<close>

lemma spread_slot_Absent [simp]: "spread_slot a Absent = a"
  by (simp add: spread_slot_def)

lemma spread_slot_present: "b \<noteq> Absent \<Longrightarrow> spread_slot a b = b"
  by (cases b) (simp_all add: spread_slot_def)

lemma callbacks_setBluetoothCallbacks [simp]:
  "callbacks (setBluetoothCallbacks n w) = spread (callbacks w) n"
  by (simp add: setBluetoothCallbacks_def)

lemma keys_disjointD:
  assumes "keys a \<inter> keys b = {}"
  shows "onConnected a \<noteq> Absent \<Longrightarrow> onConnected b = Absent"
    and "onDisconnected a \<noteq> Absent \<Longrightarrow> onDisconnected b = Absent"
    and "onError a \<noteq> Absent \<Longrightarrow> onError b = Absent"
    and "onDataReceived a \<noteq> Absent \<Longrightarrow> onDataReceived b = Absent"
  using assms by (auto simp: keys_def split: if_splits)

lemma run_append: "run (xs @ ys) w = run ys (run xs w)"
  by (induction xs arbitrary: w) simp_all

lemma handles_null_disconnect: "handles_null (disconnectFromArduino fires w)"
  by (simp add: handles_null_def disconnectFromArduino_def Let_def)

lemma handles_null_listener: "handles_null (onDisconnected_listener w)"
  by (simp add: handles_null_def onDisconnected_listener_def)

lemma getCurrentDevice_null: "handles_null w \<Longrightarrow> getCurrentDevice w = None"
  by (simp add: handles_null_def getCurrentDevice_def)

lemma disconnect_noop: "handles_null w \<Longrightarrow> disconnectFromArduino fires w = w"
  by (simp add: handles_null_def disconnectFromArduino_def)

text \<open>
  C6. \<open>setBluetoothCallbacks\<close> merges: registering \<open>a\<close> and then \<open>b\<close>, where \<open>a\<close> and \<open>b\<close>
  provide disjoint sets of keys, leaves every key that \<open>a\<close> provides holding what \<open>a\<close>
  gave it; and for any registration \<open>n\<close>, a key that \<open>n\<close> omits keeps its previous value
  while a key that \<open>n\<close> provides takes the value \<open>n\<close> gives.
\<close>

theorem setBluetoothCallbacks_merge:
  "(keys a \<inter> keys b = {} \<longrightarrow>
      (onConnected a \<noteq> Absent \<longrightarrow>
         onConnected (callbacks (setBluetoothCallbacks b (setBluetoothCallbacks a w))) = onConnected a) \<and>
      (onDisconnected a \<noteq> Absent \<longrightarrow>
         onDisconnected (callbacks (setBluetoothCallbacks b (setBluetoothCallbacks a w))) = onDisconnected a) \<and>
      (onError a \<noteq> Absent \<longrightarrow>
         onError (callbacks (setBluetoothCallbacks b (setBluetoothCallbacks a w))) = onError a) \<and>
      (onDataReceived a \<noteq> Absent \<longrightarrow>
         onDataReceived (callbacks (setBluetoothCallbacks b (setBluetoothCallbacks a w))) = onDataReceived a)) \<and>
   onConnected (callbacks (setBluetoothCallbacks n w)) =
     (if onConnected n = Absent then onConnected (callbacks w) else onConnected n) \<and>
   onDisconnected (callbacks (setBluetoothCallbacks n w)) =
     (if onDisconnected n = Absent then onDisconnected (callbacks w) else onDisconnected n) \<and>
   onError (callbacks (setBluetoothCallbacks n w)) =
     (if onError n = Absent then onError (callbacks w) else onError n) \<and>
   onDataReceived (callbacks (setBluetoothCallbacks n w)) =
     (if onDataReceived n = Absent then onDataReceived (callbacks w) else onDataReceived n)"
proof (intro conjI impI)
  assume d: "keys a \<inter> keys b = {}"
  show "onConnected (callbacks (setBluetoothCallbacks b (setBluetoothCallbacks a w))) = onConnected a"
    if "onConnected a \<noteq> Absent"
    using that by (simp add: spread_def keys_disjointD(1) [OF d] spread_slot_present)
  show "onDisconnected (callbacks (setBluetoothCallbacks b (setBluetoothCallbacks a w))) = onDisconnected a"
    if "onDisconnected a \<noteq> Absent"
    using that by (simp add: spread_def keys_disjointD(2) [OF d] spread_slot_present)
  show "onError (callbacks (setBluetoothCallbacks b (setBluetoothCallbacks a w))) = onError a"
    if "onError a \<noteq> Absent"
    using that by (simp add: spread_def keys_disjointD(3) [OF d] spread_slot_present)
  show "onDataReceived (callbacks (setBluetoothCallbacks b (setBluetoothCallbacks a w))) = onDataReceived a"
    if "onDataReceived a \<noteq> Absent"
    using that by (simp add: spread_def keys_disjointD(4) [OF d] spread_slot_present)
next
  show "onConnected (callbacks (setBluetoothCallbacks n w)) =
     (if onConnected n = Absent then onConnected (callbacks w) else onConnected n)"
    by (simp add: spread_def spread_slot_present)
  show "onDisconnected (callbacks (setBluetoothCallbacks n w)) =
     (if onDisconnected n = Absent then onDisconnected (callbacks w) else onDisconnected n)"
    by (simp add: spread_def spread_slot_present)
  show "onError (callbacks (setBluetoothCallbacks n w)) =
     (if onError n = Absent then onError (callbacks w) else onError n)"
    by (simp add: spread_def spread_slot_present)
  show "onDataReceived (callbacks (setBluetoothCallbacks n w)) =
     (if onDataReceived n = Absent then onDataReceived (callbacks w) else onDataReceived n)"
    by (simp add: spread_def spread_slot_present)
qed

theorem setBluetoothCallbacks_merge_witness:
  "keys screen_callbacks \<inter> keys data_only = {} \<and>
   onConnected screen_callbacks \<noteq> Absent \<and>
   onConnected (callbacks (setBluetoothCallbacks data_only
       (setBluetoothCallbacks screen_callbacks (initial initial_screen)))) =
     onConnected screen_callbacks \<and>
   onDataReceived (callbacks (setBluetoothCallbacks data_only mounted_screen)) =
     onDataReceived data_only \<and>
   onError (callbacks (setBluetoothCallbacks data_only mounted_screen)) =
     onError (callbacks mounted_screen)"
proof -
  have d: "keys screen_callbacks \<inter> keys data_only = {}"
    by (simp add: keys_def screen_callbacks_def data_only_def)
  have p: "onConnected screen_callbacks \<noteq> Absent"
    by (simp add: screen_callbacks_def)
  have q: "onDataReceived data_only \<noteq> Absent" "onError data_only = Absent"
    by (simp_all add: data_only_def)
  from setBluetoothCallbacks_merge
    [where a = screen_callbacks and b = data_only and w = "initial initial_screen"]
    setBluetoothCallbacks_merge [where n = data_only and w = mounted_screen]
    d p q
  show ?thesis by simp
qed

text \<open>
  C1. Whatever operations ran before it, after \<open>disconnectFromArduino\<close> all four handles
  are \<open>null\<close> and \<open>getCurrentDevice\<close> returns \<open>null\<close>, in particular after a connect
  followed by a disconnect, whether or not the device was connected (so whether or not
  \<open>gatt.disconnect()\<close> was called); and a disconnect in a state whose handles are
  already \<open>null\<close> changes nothing.
\<close>

theorem disconnect_clears_handles:
  "handles_null (run (ops @ [Disconnect fires]) w) \<and>
   getCurrentDevice (run (ops @ [Disconnect fires]) w) = None \<and>
   handles_null (run [Connect p, Disconnect fires] w) \<and>
   getCurrentDevice (run [Connect p, Disconnect fires] w) = None \<and>
   (handles_null w \<longrightarrow> disconnectFromArduino fires w = w) \<and>
   disconnectFromArduino fires' (disconnectFromArduino fires w) = disconnectFromArduino fires w"
proof (intro conjI impI)
  show a: "handles_null (run (ops @ [Disconnect fires]) w)" for ops :: "'a op list"
    by (simp add: run_append handles_null_disconnect)
  then show "getCurrentDevice (run (ops @ [Disconnect fires]) w) = None"
    by (rule getCurrentDevice_null)
  show "handles_null (run [Connect p, Disconnect fires] w)"
    by (simp add: handles_null_disconnect)
  then show "getCurrentDevice (run [Connect p, Disconnect fires] w) = None"
    by (rule getCurrentDevice_null)
  show "disconnectFromArduino fires w = w" if "handles_null w"
    using that by (rule disconnect_noop)
  show "disconnectFromArduino fires' (disconnectFromArduino fires w) = disconnectFromArduino fires w"
    by (rule disconnect_noop) (rule handles_null_disconnect)
qed

theorem disconnect_clears_handles_witness:
  "handles_null (initial initial_screen) \<and>
   disconnectFromArduino True (initial initial_screen) = initial initial_screen \<and>
   handles_null (run [Connect all_resolve, Disconnect True] mounted_screen) \<and>
   getCurrentDevice (run [Connect all_resolve, Disconnect True] mounted_screen) = None"
proof -
  have h: "handles_null (initial initial_screen)"
    by (simp add: handles_null_def initial_def)
  from disconnect_clears_handles [of "[]" True "initial initial_screen" all_resolve True] h
    disconnect_clears_handles [of "[]" True mounted_screen all_resolve True]
  show ?thesis by simp
qed

subsection \<open>Callbacks and platform calls leave the handles alone\<close>

lemma call_onError_fields [simp]:
  "bluetoothDevice (call_onError e w) = bluetoothDevice w"
  "bluetoothServer (call_onError e w) = bluetoothServer w"
  "bluetoothService (call_onError e w) = bluetoothService w"
  "bluetoothCharacteristic (call_onError e w) = bluetoothCharacteristic w"
  "callbacks (call_onError e w) = callbacks w"
  by (simp_all add: call_onError_def split: slot.splits)

lemma call_onConnected_fields [simp]:
  "bluetoothDevice (call_onConnected v w) = bluetoothDevice w"
  "bluetoothServer (call_onConnected v w) = bluetoothServer w"
  "bluetoothService (call_onConnected v w) = bluetoothService w"
  "bluetoothCharacteristic (call_onConnected v w) = bluetoothCharacteristic w"
  "callbacks (call_onConnected v w) = callbacks w"
  by (simp_all add: call_onConnected_def split: slot.splits)

lemma call_onDisconnected_fields [simp]:
  "bluetoothDevice (call_onDisconnected w) = bluetoothDevice w"
  "bluetoothServer (call_onDisconnected w) = bluetoothServer w"
  "bluetoothService (call_onDisconnected w) = bluetoothService w"
  "bluetoothCharacteristic (call_onDisconnected w) = bluetoothCharacteristic w"
  "callbacks (call_onDisconnected w) = callbacks w"
  by (simp_all add: call_onDisconnected_def split: slot.splits)

lemma call_onDataReceived_fields [simp]:
  "bluetoothDevice (call_onDataReceived s w) = bluetoothDevice w"
  "bluetoothServer (call_onDataReceived s w) = bluetoothServer w"
  "bluetoothService (call_onDataReceived s w) = bluetoothService w"
  "bluetoothCharacteristic (call_onDataReceived s w) = bluetoothCharacteristic w"
  "callbacks (call_onDataReceived s w) = callbacks w"
  by (simp_all add: call_onDataReceived_def split: slot.splits)

lemma platform_call_fields [simp]:
  "bluetoothDevice (platform_call ev w) = bluetoothDevice w"
  "bluetoothServer (platform_call ev w) = bluetoothServer w"
  "bluetoothService (platform_call ev w) = bluetoothService w"
  "bluetoothCharacteristic (platform_call ev w) = bluetoothCharacteristic w"
  "callbacks (platform_call ev w) = callbacks w"
  "client (platform_call ev w) = client w"
  "trace (platform_call ev w) = trace w @ [ev]"
  by (simp_all add: platform_call_def)

lemma trace_call_onError:
  "trace (call_onError e w) =
     trace w @ (case onError (callbacks w) of Handler h \<Rightarrow> [CbError e] | _ \<Rightarrow> [])"
  by (simp add: call_onError_def split: slot.splits)

lemma trace_call_onDisconnected:
  "trace (call_onDisconnected w) =
     trace w @ (case onDisconnected (callbacks w) of Handler h \<Rightarrow> [CbDisconnected] | _ \<Rightarrow> [])"
  by (simp add: call_onDisconnected_def split: slot.splits)

lemma trace_call_onConnected:
  "trace (call_onConnected v w) =
     trace w @ (case onConnected (callbacks w) of Handler h \<Rightarrow> [CbConnected v] | _ \<Rightarrow> [])"
  by (simp add: call_onConnected_def split: slot.splits)

lemma client_call_onError: 
  "onError (callbacks w) = Handler h \<Longrightarrow> client (call_onError e w) = h e (client w)"
  by (simp add: call_onError_def)

lemma client_call_onDisconnected: 
  "onDisconnected (callbacks w) = Handler h \<Longrightarrow> client (call_onDisconnected w) = h (client w)"
  by (simp add: call_onDisconnected_def)

lemma handles_null_initial [simp]: "handles_null (initial u)"
  by (simp add: handles_null_def initial_def)

lemma fst_catch_notify [simp]: "fst (catch_notify rw) = fst rw"
  by (simp add: catch_notify_def split: sum.splits)

lemma catch_notify_fields [simp]:
  "bluetoothDevice (snd (catch_notify rw)) = bluetoothDevice (snd rw)"
  "bluetoothServer (snd (catch_notify rw)) = bluetoothServer (snd rw)"
  "bluetoothService (snd (catch_notify rw)) = bluetoothService (snd rw)"
  "bluetoothCharacteristic (snd (catch_notify rw)) = bluetoothCharacteristic (snd rw)"
  "callbacks (snd (catch_notify rw)) = callbacks (snd rw)"
  by (simp_all add: catch_notify_def split: sum.splits)

subsection \<open>Without a device there is nothing to reconnect or to write to\<close>

lemma reconnect_no_device:
  "bluetoothDevice w = None \<Longrightarrow> reconnectToArduino p w = (Inl NoPriorDevice, w)"
  by (simp add: reconnectToArduino_def)

lemma send_no_characteristic:
  "bluetoothCharacteristic w = None \<Longrightarrow> sendToArduino data written w = (Inl NotConnected, w)"
  by (simp add: sendToArduino_def)

lemma handles_null_step:
  "handles_null w \<Longrightarrow> \<not> is_connect x \<Longrightarrow> handles_null (step x w)"
proof (cases x)
  case (Register c)
  assume "handles_null w"
  then show ?thesis using Register by (simp add: handles_null_def setBluetoothCallbacks_def)
next
  case (Connect p)
  assume "\<not> is_connect x"
  then show ?thesis using Connect by simp
next
  case (Disconnect fires)
  then show ?thesis by (simp add: disconnectFromArduino_def handles_null_def Let_def)
next
  case (Reconnect p)
  assume "handles_null w"
  then show ?thesis using Reconnect by (simp add: handles_null_def reconnect_no_device)
next
  case (Send data written)
  assume "handles_null w"
  then show ?thesis using Send by (simp add: handles_null_def send_no_characteristic)
next
  case GattServerDisconnected
  then show ?thesis by (simp add: onDisconnected_listener_def handles_null_def)
next
  case (CharacteristicValueChanged s)
  assume "handles_null w"
  then show ?thesis using CharacteristicValueChanged
    by (simp add: handles_null_def handleCharacteristicValueChanged_def)
qed

lemma handles_null_run:
  "handles_null w \<Longrightarrow> list_all (\<lambda>x. \<not> is_connect x) ops \<Longrightarrow> handles_null (run ops w)"
proof (induction ops arbitrary: w)
  case Nil
  then show ?case by simp
next
  case (Cons x xs)
  from Cons.prems have "handles_null (step x w)"
    by (simp add: handles_null_step)
  with Cons show ?case by simp
qed

text \<open>
  C7. \<open>reconnectToArduino\<close> fails with \<open>NoPriorDevice\<close>, changing nothing, whenever
  \<open>bluetoothDevice\<close> is \<open>null\<close>: in the state at module load, after any run from it in
  which \<open>connectToArduino\<close> was never called, and after any run ending in a disconnect.
\<close>

theorem reconnect_NoPriorDevice:
  "(bluetoothDevice w = None \<longrightarrow> reconnectToArduino p w = (Inl NoPriorDevice, w)) \<and>
   fst (reconnectToArduino p (initial u)) = Inl NoPriorDevice \<and>
   (list_all (\<lambda>x. \<not> is_connect x) ops \<longrightarrow>
      fst (reconnectToArduino p (run ops (initial u))) = Inl NoPriorDevice) \<and>
   fst (reconnectToArduino p (run (ops' @ [Disconnect fires]) w)) = Inl NoPriorDevice"
proof (intro conjI impI)
  show "reconnectToArduino p w = (Inl NoPriorDevice, w)" if "bluetoothDevice w = None"
    using that by (rule reconnect_no_device)
  show "fst (reconnectToArduino p (initial u)) = Inl NoPriorDevice"
    by (simp add: reconnect_no_device initial_def)
  show "fst (reconnectToArduino p (run ops (initial u))) = Inl NoPriorDevice"
    if "list_all (\<lambda>x. \<not> is_connect x) ops"
  proof -
    from that have "handles_null (run ops (initial u))"
      by (simp add: handles_null_run)
    then show ?thesis by (simp add: handles_null_def reconnect_no_device)
  qed
  have "handles_null (run (ops' @ [Disconnect fires]) w)"
    by (simp add: run_append handles_null_disconnect)
  then show "fst (reconnectToArduino p (run (ops' @ [Disconnect fires]) w)) = Inl NoPriorDevice"
    by (simp add: handles_null_def reconnect_no_device)
qed

theorem reconnect_NoPriorDevice_witness:
  "bluetoothDevice mounted_screen = None \<and>
   reconnectToArduino gatt_resolves mounted_screen = (Inl NoPriorDevice, mounted_screen) \<and>
   list_all (\<lambda>x. \<not> is_connect x)
     [Register screen_callbacks, Disconnect True, Send payload_48 None] \<and>
   fst (reconnectToArduino gatt_resolves
     (run [Register screen_callbacks, Disconnect True, Send payload_48 None]
        (initial initial_screen))) = Inl NoPriorDevice"
proof -
  have a: "bluetoothDevice mounted_screen = None"
    by (simp add: mounted_screen_def setBluetoothCallbacks_def initial_def)
  have b: "list_all (\<lambda>x. \<not> is_connect x)
     [Register screen_callbacks, Disconnect True, Send payload_48 None]"
    by simp
  from reconnect_NoPriorDevice [where w = mounted_screen and p = gatt_resolves
      and u = initial_screen
      and ops = "[Register screen_callbacks, Disconnect True, Send payload_48 None]"] a b
  show ?thesis by simp
qed

lemma spread_slot_simps [simp]:
  "spread_slot a (Handler h) = Handler h"
  "spread_slot a Undefined = Undefined"
  by (simp_all add: spread_slot_def)

lemma spread_slot_Absent_left [simp]: "spread_slot Absent b = b"
  by (cases b) simp_all

lemma spread_no_callbacks [simp]: "spread no_callbacks c = c"
  by (simp add: spread_def no_callbacks_def)

lemma mounted_screen_fields:
  "callbacks mounted_screen = screen_callbacks"
  "client mounted_screen = initial_screen"
  "trace mounted_screen = []"
  "handles_null mounted_screen"
  "bluetoothDevice mounted_screen = None"
  "bluetoothServer mounted_screen = None"
  "bluetoothService mounted_screen = None"
  "bluetoothCharacteristic mounted_screen = None"
  by (simp_all add: mounted_screen_def setBluetoothCallbacks_def initial_def handles_null_def)

text \<open>
  C8. The internal disconnection handler, which is what runs when the platform fires
  \<open>gattserverdisconnected\<close>, invokes the registered \<open>onDisconnected\<close> callback (once,
  and no other callback) and leaves all four handles \<open>null\<close> together; the registry
  itself is not changed.
\<close>

theorem onDisconnected_clears_all:
  "step GattServerDisconnected w = onDisconnected_listener w \<and>
   handles_null (onDisconnected_listener w) \<and>
   callbacks (onDisconnected_listener w) = callbacks w \<and>
   trace (onDisconnected_listener w) =
     trace w @ (case onDisconnected (callbacks w) of Handler h \<Rightarrow> [CbDisconnected] | _ \<Rightarrow> []) \<and>
   (onDisconnected (callbacks w) = Handler h \<longrightarrow>
      client (onDisconnected_listener w) = h (client w) \<and>
      trace (onDisconnected_listener w) = trace w @ [CbDisconnected])"
proof (intro conjI impI)
  show "step GattServerDisconnected w = onDisconnected_listener w"
    by simp
  show "handles_null (onDisconnected_listener w)"
    by (rule handles_null_listener)
  show "callbacks (onDisconnected_listener w) = callbacks w"
    by (simp add: onDisconnected_listener_def)
  show "trace (onDisconnected_listener w) =
     trace w @ (case onDisconnected (callbacks w) of Handler h \<Rightarrow> [CbDisconnected] | _ \<Rightarrow> [])"
    by (simp add: onDisconnected_listener_def trace_call_onDisconnected)
  show "client (onDisconnected_listener w) = h (client w)"
    if "onDisconnected (callbacks w) = Handler h"
    using that by (simp add: onDisconnected_listener_def client_call_onDisconnected)
  show "trace (onDisconnected_listener w) = trace w @ [CbDisconnected]"
    if "onDisconnected (callbacks w) = Handler h"
    using that by (simp add: onDisconnected_listener_def trace_call_onDisconnected)
qed

lemma connected_screen_handles:
  "bluetoothDevice (snd (connectToArduino all_resolve mounted_screen)) =
     Some (lumi\<lparr>gatt_connected := True\<rparr>)"
  "bluetoothServer (snd (connectToArduino all_resolve mounted_screen)) = Some (Server 1)"
  "bluetoothService (snd (connectToArduino all_resolve mounted_screen)) = Some (Service 1)"
  "bluetoothCharacteristic (snd (connectToArduino all_resolve mounted_screen)) =
     Some (Characteristic 1)"
  "callbacks (snd (connectToArduino all_resolve mounted_screen)) = screen_callbacks"
  by (simp_all add: connectToArduino_def connect_try_def open_gatt_def all_resolve_def
      isBluetoothSupported_def mounted_screen_fields catch_notify_def Let_def)

theorem onDisconnected_clears_all_witness:
  "onDisconnected (callbacks (snd (connectToArduino all_resolve mounted_screen))) =
     onDisconnected screen_callbacks \<and>
   bluetoothCharacteristic (snd (connectToArduino all_resolve mounted_screen)) =
     Some (Characteristic 1) \<and>
   handles_null (onDisconnected_listener (snd (connectToArduino all_resolve mounted_screen))) \<and>
   trace (onDisconnected_listener (snd (connectToArduino all_resolve mounted_screen))) =
     trace (snd (connectToArduino all_resolve mounted_screen)) @ [CbDisconnected]"
proof -
  have a: "onDisconnected (callbacks (snd (connectToArduino all_resolve mounted_screen))) =
      Handler (\<lambda>scr. (setConnectionState Idle scr)\<lparr>connectedDevice := None\<rparr>)"
    by (simp add: connected_screen_handles) (simp add: screen_callbacks_def)
  from onDisconnected_clears_all
    [where w = "snd (connectToArduino all_resolve mounted_screen)"
       and h = "\<lambda>scr. (setConnectionState Idle scr)\<lparr>connectedDevice := None\<rparr>"] a
  show ?thesis by (simp add: connected_screen_handles)
qed

text \<open>
  C9. When \<open>navigator.bluetooth\<close> is absent, \<open>isBluetoothSupported\<close> returns false and
  \<open>connectToArduino\<close> fails with \<open>NotSupported\<close>: the only thing it does is invoke the
  registered \<open>onError\<close> with that error. No handle changes and no platform call is
  made, so the chooser is not presented.
\<close>

theorem connect_NotSupported:
  "isBluetoothSupported b = b \<and>
   (\<not> isBluetoothSupported (navigator_bluetooth p) \<longrightarrow>
      fst (connectToArduino p w) = Inl NotSupported \<and>
      bluetoothDevice (snd (connectToArduino p w)) = bluetoothDevice w \<and>
      bluetoothServer (snd (connectToArduino p w)) = bluetoothServer w \<and>
      bluetoothService (snd (connectToArduino p w)) = bluetoothService w \<and>
      bluetoothCharacteristic (snd (connectToArduino p w)) = bluetoothCharacteristic w \<and>
      callbacks (snd (connectToArduino p w)) = callbacks w \<and>
      trace (snd (connectToArduino p w)) =
        trace w @ (case onError (callbacks w) of Handler h \<Rightarrow> [CbError NotSupported] | _ \<Rightarrow> []) \<and>
      RequestDevice \<notin> set (drop (length (trace w)) (trace (snd (connectToArduino p w)))) \<and>
      (onError (callbacks w) = Handler h \<longrightarrow>
         client (snd (connectToArduino p w)) = h NotSupported (client w) \<and>
         trace (snd (connectToArduino p w)) = trace w @ [CbError NotSupported]))"
proof (intro conjI impI)
  show "isBluetoothSupported b = b"
    by (simp add: isBluetoothSupported_def)
next
  assume u: "\<not> isBluetoothSupported (navigator_bluetooth p)"
  then have c: "connectToArduino p w = (Inl NotSupported, call_onError NotSupported w)"
    by (simp add: connectToArduino_def)
  show "fst (connectToArduino p w) = Inl NotSupported"
    by (simp add: c)
  show "bluetoothDevice (snd (connectToArduino p w)) = bluetoothDevice w"
    by (simp add: c)
  show "bluetoothServer (snd (connectToArduino p w)) = bluetoothServer w"
    by (simp add: c)
  show "bluetoothService (snd (connectToArduino p w)) = bluetoothService w"
    by (simp add: c)
  show "bluetoothCharacteristic (snd (connectToArduino p w)) = bluetoothCharacteristic w"
    by (simp add: c)
  show "callbacks (snd (connectToArduino p w)) = callbacks w"
    by (simp add: c)
  show t: "trace (snd (connectToArduino p w)) =
        trace w @ (case onError (callbacks w) of Handler h \<Rightarrow> [CbError NotSupported] | _ \<Rightarrow> [])"
    by (simp add: c trace_call_onError)
  show "RequestDevice \<notin> set (drop (length (trace w)) (trace (snd (connectToArduino p w))))"
    by (simp add: t split: slot.splits)
  show "client (snd (connectToArduino p w)) = h NotSupported (client w)"
    if "onError (callbacks w) = Handler h"
    using that by (simp add: c client_call_onError)
  show "trace (snd (connectToArduino p w)) = trace w @ [CbError NotSupported]"
    if "onError (callbacks w) = Handler h"
    using that by (simp add: t)
qed

theorem connect_NotSupported_witness:
  "\<not> isBluetoothSupported (navigator_bluetooth no_bluetooth) \<and>
   fst (connectToArduino no_bluetooth mounted_screen) = Inl NotSupported \<and>
   trace (snd (connectToArduino no_bluetooth mounted_screen)) = [CbError NotSupported] \<and>
   connectionState (client (snd (connectToArduino no_bluetooth mounted_screen))) = Failed \<and>
   handles_null (snd (connectToArduino no_bluetooth mounted_screen))"
proof -
  have a: "\<not> isBluetoothSupported (navigator_bluetooth no_bluetooth)"
    by (simp add: isBluetoothSupported_def no_bluetooth_def)
  have b: "onError (callbacks mounted_screen) =
      Handler (\<lambda>err scr. setConnectionState Failed (scr\<lparr>error := Some err\<rparr>))"
    by (simp add: mounted_screen_fields) (simp add: screen_callbacks_def)
  from connect_NotSupported [where p = no_bluetooth and w = mounted_screen
      and h = "\<lambda>err scr. setConnectionState Failed (scr\<lparr>error := Some err\<rparr>)"] a b
    mounted_screen_fields(4)
  show ?thesis
    by (simp add: mounted_screen_fields(2,3) handles_null_def setConnectionState_def)
qed

subsection \<open>The GATT sequence\<close>

lemma callback_events_append [simp]:
  "callback_events (xs @ ys) = callback_events xs @ callback_events ys"
  by (simp add: callback_events_def)

lemma callback_events_Nil [simp]: "callback_events [] = []"
  by (simp add: callback_events_def)

lemma callback_events_Cons [simp]:
  "callback_events (ev # evs) =
     (if is_callback ev then ev # callback_events evs else callback_events evs)"
  by (simp add: callback_events_def)

lemma open_gatt_callbacks [simp]: "callbacks (snd (open_gatt p d w)) = callbacks w"
  by (simp add: open_gatt_def Let_def split: sum.splits option.splits)

lemma open_gatt_device:
  "bluetoothDevice w = Some d \<Longrightarrow>
   bluetoothDevice (snd (open_gatt p d w)) =
     Some (if isl (gatt_connect p) then d else d\<lparr>gatt_connected := True\<rparr>)"
  by (simp add: open_gatt_def Let_def split: sum.splits option.splits)

lemma fst_open_gatt:
  "fst (open_gatt p d w) =
     (case first_rejection p of
        Some m \<Rightarrow> Inl (PlatformError m)
      | None \<Rightarrow> Inr \<lparr>device_id = gid d, device_name = name_or_default d, connected = True\<rparr>)"
  by (simp add: open_gatt_def first_rejection_def name_or_default_def Let_def
      split: sum.splits option.splits)

lemma open_gatt_callback_events:
  "callback_events (trace (snd (open_gatt p d w))) =
     callback_events (trace w) @
     (case fst (open_gatt p d w) of
        Inl e \<Rightarrow> []
      | Inr device \<Rightarrow>
          (case onConnected (callbacks w) of Handler h \<Rightarrow> [CbConnected device] | _ \<Rightarrow> []))"
  by (simp add: open_gatt_def Let_def trace_call_onConnected
      split: sum.splits option.splits slot.splits)

lemma open_gatt_client_failure:
  "fst (open_gatt p d w) = Inl e \<Longrightarrow> client (snd (open_gatt p d w)) = client w"
  by (simp add: open_gatt_def Let_def split: sum.splits option.splits)

lemma open_gatt_not_NoPriorDevice: "fst (open_gatt p d w) \<noteq> Inl NoPriorDevice"
  by (simp add: fst_open_gatt split: option.splits)

lemma catch_notify_callback_events:
  "callback_events (trace (snd (catch_notify rw))) =
     callback_events (trace (snd rw)) @
     (case fst rw of
        Inl e \<Rightarrow> (case onError (callbacks (snd rw)) of Handler h \<Rightarrow> [CbError e] | _ \<Rightarrow> [])
      | Inr v \<Rightarrow> [])"
  by (simp add: catch_notify_def trace_call_onError split: sum.splits slot.splits)

lemma catch_notify_client:
  "fst rw = Inl e \<Longrightarrow> onError (callbacks (snd rw)) = Handler h \<Longrightarrow>
   client (snd (catch_notify rw)) = h e (client (snd rw))"
  by (simp add: catch_notify_def client_call_onError)

subsection \<open>\<open>connectToArduino\<close>\<close>

lemma connect_supported:
  "navigator_bluetooth p \<Longrightarrow> connectToArduino p w = catch_notify (connect_try p w)"
  by (simp add: connectToArduino_def isBluetoothSupported_def)

lemma connect_unsupported:
  "\<not> navigator_bluetooth p \<Longrightarrow>
   connectToArduino p w = (Inl NotSupported, call_onError NotSupported w)"
  by (simp add: connectToArduino_def isBluetoothSupported_def)

lemma connect_try_rejected:
  "navigator_bluetooth p \<Longrightarrow> requestDevice p = Inl m \<Longrightarrow>
   connect_try p w = (Inl (PlatformError m), platform_call RequestDevice w)"
  by (simp add: connect_try_def)

lemma connect_try_chosen:
  "navigator_bluetooth p \<Longrightarrow> requestDevice p = Inr d \<Longrightarrow>
   connect_try p w =
     open_gatt p d
       (platform_call AddDisconnectListener
          ((platform_call RequestDevice w)\<lparr>bluetoothDevice := Some d\<rparr>))"
  by (simp add: connect_try_def)

lemma connect_try_callbacks [simp]:
  "navigator_bluetooth p \<Longrightarrow> callbacks (snd (connect_try p w)) = callbacks w"
  by (cases "requestDevice p") (simp_all add: connect_try_rejected connect_try_chosen)

lemma connect_try_callback_events:
  "navigator_bluetooth p \<Longrightarrow>
   callback_events (trace (snd (connect_try p w))) =
     callback_events (trace w) @
     (case fst (connect_try p w) of
        Inl e \<Rightarrow> []
      | Inr device \<Rightarrow>
          (case onConnected (callbacks w) of Handler h \<Rightarrow> [CbConnected device] | _ \<Rightarrow> []))"
  by (cases "requestDevice p")
    (simp_all add: connect_try_rejected connect_try_chosen open_gatt_callback_events
      split: sum.splits)

lemma connect_try_client_failure:
  "navigator_bluetooth p \<Longrightarrow> fst (connect_try p w) = Inl e \<Longrightarrow>
   client (snd (connect_try p w)) = client w"
  by (cases "requestDevice p")
    (simp_all add: connect_try_rejected connect_try_chosen open_gatt_client_failure)

lemma fst_connect: 
  "fst (connectToArduino p w) =
     (case connect_failure p of
        Some e \<Rightarrow> Inl e
      | None \<Rightarrow>
          (case requestDevice p of
             Inr d \<Rightarrow> Inr \<lparr>device_id = gid d, device_name = name_or_default d, connected = True\<rparr>
           | Inl m \<Rightarrow> Inl (PlatformError m)))"
proof (cases "navigator_bluetooth p")
  case False
  then show ?thesis by (simp add: connect_unsupported connect_failure_def)
next
  case True
  then show ?thesis
    by (cases "requestDevice p")
      (simp_all add: connect_supported connect_try_rejected connect_try_chosen connect_failure_def
        fst_open_gatt split: option.splits)
qed

lemma connect_callback_events:
  "callback_events (trace (snd (connectToArduino p w))) =
     callback_events (trace w) @
     (case fst (connectToArduino p w) of
        Inl e \<Rightarrow> (case onError (callbacks w) of Handler h \<Rightarrow> [CbError e] | _ \<Rightarrow> [])
      | Inr device \<Rightarrow>
          (case onConnected (callbacks w) of Handler h \<Rightarrow> [CbConnected device] | _ \<Rightarrow> []))"
proof (cases "navigator_bluetooth p")
  case False
  then show ?thesis
    by (simp add: connect_unsupported trace_call_onError split: slot.splits)
next
  case True
  then show ?thesis
    by (simp add: connect_supported catch_notify_callback_events connect_try_callback_events
        split: sum.splits)
qed

lemma connect_client_failure:
  assumes "fst (connectToArduino p w) = Inl e" and "onError (callbacks w) = Handler h"
  shows "client (snd (connectToArduino p w)) = h e (client w)"
proof (cases "navigator_bluetooth p")
  case False
  with assms show ?thesis
    by (simp add: connect_unsupported client_call_onError)
next
  case True
  with assms have "fst (connect_try p w) = Inl e"
    by (simp add: connect_supported)
  with True assms(2) show ?thesis
    by (simp add: connect_supported catch_notify_client connect_try_client_failure)
qed

lemma connect_device_after_chooser:
  assumes "navigator_bluetooth p" and "requestDevice p = Inr d"
  shows "bluetoothDevice (snd (connectToArduino p w)) =
     Some (if isl (gatt_connect p) then d else d\<lparr>gatt_connected := True\<rparr>)"
  using assms by (simp add: connect_supported connect_try_chosen open_gatt_device)

subsection \<open>\<open>sendToArduino\<close>\<close>

lemma send_with_characteristic:
  "bluetoothCharacteristic w = Some c \<Longrightarrow>
   sendToArduino data written w =
     (case written of Some m \<Rightarrow> Inl (PlatformError m) | None \<Rightarrow> Inr (),
      platform_call (WriteValue c (TextEncoder_encode data)) w)"
  by (simp add: sendToArduino_def Let_def split: option.splits)

lemma encode_payload_48: "TextEncoder_encode payload_48 = [0x34, 0x38]"
  by (simp add: TextEncoder_encode_def payload_48_def utf8_scalar_def
      is_high_surrogate_def is_low_surrogate_def)

lemma encode_beyond_ascii:
  "TextEncoder_encode [0xE9, 0x20AC, 0xD83D, 0xDE00, 0xD800] =
     [0xC3, 0xA9, 0xE2, 0x82, 0xAC, 0xF0, 0x9F, 0x98, 0x80, 0xEF, 0xBF, 0xBD]"
  by (simp add: TextEncoder_encode_def utf8_scalar_def is_high_surrogate_def
      is_low_surrogate_def)

lemma subscription_rejected_handles:
  "fst (connectToArduino subscription_rejected mounted_screen) =
     Inl (PlatformError ''NotSupportedError'')"
  "bluetoothCharacteristic (snd (connectToArduino subscription_rejected mounted_screen)) =
     Some (Characteristic 1)"
  "trace (snd (connectToArduino subscription_rejected mounted_screen)) =
     [RequestDevice, AddDisconnectListener, GattConnect, GetPrimaryService, GetCharacteristic,
      StartNotifications, CbError (PlatformError ''NotSupportedError'')]"
  by (simp_all add: connectToArduino_def connect_try_def open_gatt_def subscription_rejected_def
      isBluetoothSupported_def mounted_screen_fields catch_notify_def Let_def
      call_onError_def screen_callbacks_def)

text \<open>
  C2, as stated, fails: a connect whose subscription step is rejected is not a successful
  connect, yet it leaves the characteristic handle assigned, and a following
  \<open>sendToArduino\<close> writes to it instead of failing with \<open>NotConnected\<close>.
\<close>

theorem send_after_failed_connect_writes:
  "fst (connectToArduino subscription_rejected mounted_screen) =
     Inl (PlatformError ''NotSupportedError'') \<and>
   fst (sendToArduino payload_48 None (run [Connect subscription_rejected] mounted_screen)) =
     Inr () \<and>
   fst (sendToArduino payload_48 None (run [Connect subscription_rejected] mounted_screen)) \<noteq>
     Inl NotConnected \<and>
   last (trace (snd (sendToArduino payload_48 None
      (run [Connect subscription_rejected] mounted_screen)))) =
     WriteValue (Characteristic 1) [0x34, 0x38]"
  by (simp add: subscription_rejected_handles send_with_characteristic encode_payload_48)

text \<open>
  C2, amended. \<open>sendToArduino\<close> fails with \<open>NotConnected\<close>, doing nothing else, exactly
  when \<open>bluetoothCharacteristic\<close> is \<open>null\<close>; that is the case at module load, after any
  run from there without a connect call, and after any run ending in a disconnect or a
  disconnection event. When a characteristic is held, whether a successful or a failed
  connect or reconnect assigned it, the call makes one platform call, a \<open>writeValue\<close> on
  that characteristic of the UTF-8 encoding of the string, and fails only if that write
  is rejected.
\<close>

theorem send_requires_characteristic:
  "(bluetoothCharacteristic w = None \<longrightarrow>
      sendToArduino data written w = (Inl NotConnected, w)) \<and>
   (bluetoothCharacteristic w = Some c \<longrightarrow>
      fst (sendToArduino data written w) \<noteq> Inl NotConnected \<and>
      fst (sendToArduino data written w) =
        (case written of Some m \<Rightarrow> Inl (PlatformError m) | None \<Rightarrow> Inr ()) \<and>
      snd (sendToArduino data written w) =
        w\<lparr>trace := trace w @ [WriteValue c (TextEncoder_encode data)]\<rparr>) \<and>
   (list_all (\<lambda>x. \<not> is_connect x) ops \<longrightarrow>
      fst (sendToArduino data written (run ops (initial u))) = Inl NotConnected) \<and>
   fst (sendToArduino data written (run (ops' @ [Disconnect fires]) w)) = Inl NotConnected \<and>
   fst (sendToArduino data written (run (ops' @ [GattServerDisconnected]) w)) =
     Inl NotConnected"
proof (intro conjI impI)
  show "sendToArduino data written w = (Inl NotConnected, w)"
    if "bluetoothCharacteristic w = None"
    using that by (rule send_no_characteristic)
  show "fst (sendToArduino data written w) \<noteq> Inl NotConnected"
    if "bluetoothCharacteristic w = Some c"
    using that by (simp add: send_with_characteristic split: option.splits)
  show "fst (sendToArduino data written w) =
        (case written of Some m \<Rightarrow> Inl (PlatformError m) | None \<Rightarrow> Inr ())"
    if "bluetoothCharacteristic w = Some c"
    using that by (simp add: send_with_characteristic)
  show "snd (sendToArduino data written w) =
        w\<lparr>trace := trace w @ [WriteValue c (TextEncoder_encode data)]\<rparr>"
    if "bluetoothCharacteristic w = Some c"
    using that by (simp add: send_with_characteristic platform_call_def)
  show "fst (sendToArduino data written (run ops (initial u))) = Inl NotConnected"
    if "list_all (\<lambda>x. \<not> is_connect x) ops"
  proof -
    from that have "handles_null (run ops (initial u))"
      by (simp add: handles_null_run)
    then show ?thesis by (simp add: handles_null_def send_no_characteristic)
  qed
  have "handles_null (run (ops' @ [Disconnect fires]) w)"
    by (simp add: run_append handles_null_disconnect)
  then show "fst (sendToArduino data written (run (ops' @ [Disconnect fires]) w)) =
      Inl NotConnected"
    by (simp add: handles_null_def send_no_characteristic)
  have "handles_null (run (ops' @ [GattServerDisconnected]) w)"
    by (simp add: run_append handles_null_listener)
  then show "fst (sendToArduino data written (run (ops' @ [GattServerDisconnected]) w)) =
      Inl NotConnected"
    by (simp add: handles_null_def send_no_characteristic)
qed

theorem send_requires_characteristic_witness:
  "bluetoothCharacteristic mounted_screen = None \<and>
   sendToArduino payload_48 None mounted_screen = (Inl NotConnected, mounted_screen) \<and>
   bluetoothCharacteristic (snd (connectToArduino all_resolve mounted_screen)) =
     Some (Characteristic 1) \<and>
   fst (sendToArduino payload_48 None (snd (connectToArduino all_resolve mounted_screen))) =
     Inr () \<and>
   trace (snd (sendToArduino payload_48 None (snd (connectToArduino all_resolve mounted_screen)))) =
     trace (snd (connectToArduino all_resolve mounted_screen)) @
       [WriteValue (Characteristic 1) [0x34, 0x38]] \<and>
   list_all (\<lambda>x. \<not> is_connect x) [Register screen_callbacks, Reconnect gatt_resolves] \<and>
   fst (sendToArduino payload_48 None
     (run [Register screen_callbacks, Reconnect gatt_resolves] (initial initial_screen))) =
     Inl NotConnected"
proof -
  have a: "bluetoothCharacteristic mounted_screen = None"
    by (simp add: mounted_screen_fields)
  have b: "bluetoothCharacteristic (snd (connectToArduino all_resolve mounted_screen)) =
     Some (Characteristic 1)"
    by (simp add: connected_screen_handles)
  have c: "list_all (\<lambda>x. \<not> is_connect x) [Register screen_callbacks, Reconnect gatt_resolves]"
    by simp
  note t = send_requires_characteristic [where data = payload_48 and written = None
      and c = "Characteristic 1" and u = initial_screen and fires = True and ops' = "[]"
      and ops = "[Register screen_callbacks, Reconnect gatt_resolves]"]
  from t [where w = mounted_screen] a
  have 1: "sendToArduino payload_48 None mounted_screen = (Inl NotConnected, mounted_screen)"
    by simp
  from t [where w = "snd (connectToArduino all_resolve mounted_screen)"] b
  have 2: "fst (sendToArduino payload_48 None (snd (connectToArduino all_resolve mounted_screen))) =
     Inr ()"
    and 3: "trace (snd (sendToArduino payload_48 None
        (snd (connectToArduino all_resolve mounted_screen)))) =
      trace (snd (connectToArduino all_resolve mounted_screen)) @
       [WriteValue (Characteristic 1) [0x34, 0x38]]"
    by (simp_all add: encode_payload_48)
  from t [where w = mounted_screen] c
  have 4: "fst (sendToArduino payload_48 None
     (run [Register screen_callbacks, Reconnect gatt_resolves] (initial initial_screen))) =
     Inl NotConnected"
    by simp
  from a 1 b 2 3 c 4 show ?thesis by blast
qed

subsection \<open>\<open>reconnectToArduino\<close>\<close>

lemma fst_connect_all_resolve:
  "fst (connectToArduino all_resolve w) =
     Inr \<lparr>device_id = ''lumi-01'', device_name = ''Lumi'', connected = True\<rparr>"
  by (simp add: fst_connect connect_failure_def first_rejection_def all_resolve_def
      lumi_def name_or_default_def)

text \<open>
  C4, as stated, fails: with the screen's \<open>onError\<close> handler registered and no
  characteristic held, \<open>sendToArduino\<close> throws \<open>NotConnected\<close> and invokes no callback;
  the module state, the client state and the trace are what they were.
\<close>

theorem send_failure_skips_onError:
  "onError (callbacks mounted_screen) = onError screen_callbacks \<and>
   onError screen_callbacks \<noteq> Absent \<and> onError screen_callbacks \<noteq> Undefined \<and>
   fst (sendToArduino payload_48 None mounted_screen) = Inl NotConnected \<and>
   CbError NotConnected \<notin> set (trace (snd (sendToArduino payload_48 None mounted_screen))) \<and>
   callback_events (trace (snd (sendToArduino payload_48 None mounted_screen))) = [] \<and>
   client (snd (sendToArduino payload_48 None mounted_screen)) = client mounted_screen"
  by (simp add: send_no_characteristic mounted_screen_fields) (simp add: screen_callbacks_def)

text \<open>
  C4, amended. No failing execution of the three operations swallows its error: the call
  returns the error the platform's answers put in its way. \<open>connectToArduino\<close> invokes
  the registered \<open>onError\<close> with that error, once and as its only callback, before
  rethrowing, and so does \<open>reconnectToArduino\<close> when a device is held. \<open>sendToArduino\<close>
  rethrows without invoking any callback.
\<close>

theorem failures_are_rethrown:
  "(connect_failure p = Some e \<longrightarrow> fst (connectToArduino p w) = Inl e) \<and>
   (fst (connectToArduino p w) = Inl e \<longrightarrow>
      connect_failure p = Some e \<and>
      callback_events (trace (snd (connectToArduino p w))) =
        callback_events (trace w) @
        (case onError (callbacks w) of Handler h \<Rightarrow> [CbError e] | _ \<Rightarrow> []) \<and>
      (onError (callbacks w) = Handler h \<longrightarrow>
         client (snd (connectToArduino p w)) = h e (client w))) \<and>
   (bluetoothDevice w = Some d \<and> first_rejection q = Some m \<longrightarrow>
      fst (reconnectToArduino q w) = Inl (PlatformError m)) \<and>
   (bluetoothDevice w = Some d \<and> fst (reconnectToArduino q w) = Inl e \<longrightarrow>
      map_option PlatformError (first_rejection q) = Some e \<and>
      callback_events (trace (snd (reconnectToArduino q w))) =
        callback_events (trace w) @
        (case onError (callbacks w) of Handler h \<Rightarrow> [CbError e] | _ \<Rightarrow> []) \<and>
      (onError (callbacks w) = Handler h \<longrightarrow>
         client (snd (reconnectToArduino q w)) = h e (client w))) \<and>
   (bluetoothCharacteristic w = Some c \<and> written = Some m \<longrightarrow>
      fst (sendToArduino data written w) = Inl (PlatformError m)) \<and>
   (bluetoothCharacteristic w = None \<longrightarrow>
      fst (sendToArduino data written w) = Inl NotConnected) \<and>
   (fst (sendToArduino data written w) = Inl e \<longrightarrow>
      callback_events (trace (snd (sendToArduino data written w))) = callback_events (trace w) \<and>
      client (snd (sendToArduino data written w)) = client w)"
proof (intro conjI impI)
  show "fst (connectToArduino p w) = Inl e" if "connect_failure p = Some e"
    using that by (simp add: fst_connect)
next
  assume f: "fst (connectToArduino p w) = Inl e"
  then show "connect_failure p = Some e"
    by (auto simp: fst_connect connect_failure_def split: option.splits sum.splits if_splits)
  from f show "callback_events (trace (snd (connectToArduino p w))) =
        callback_events (trace w) @
        (case onError (callbacks w) of Handler h \<Rightarrow> [CbError e] | _ \<Rightarrow> [])"
    by (simp add: connect_callback_events)
  from f show "client (snd (connectToArduino p w)) = h e (client w)"
    if "onError (callbacks w) = Handler h"
    using that by (rule connect_client_failure)
next
  assume "bluetoothDevice w = Some d \<and> first_rejection q = Some m"
  then show "fst (reconnectToArduino q w) = Inl (PlatformError m)"
    by (simp add: reconnectToArduino_def fst_open_gatt)
next
  assume a: "bluetoothDevice w = Some d \<and> fst (reconnectToArduino q w) = Inl e"
  then have r: "reconnectToArduino q w = catch_notify (open_gatt q d w)"
    by (simp add: reconnectToArduino_def)
  with a have f: "fst (open_gatt q d w) = Inl e"
    by simp
  from f show "map_option PlatformError (first_rejection q) = Some e"
    by (simp add: fst_open_gatt split: option.splits)
  from f show "callback_events (trace (snd (reconnectToArduino q w))) =
        callback_events (trace w) @
        (case onError (callbacks w) of Handler h \<Rightarrow> [CbError e] | _ \<Rightarrow> [])"
    by (simp add: r catch_notify_callback_events open_gatt_callback_events)
  from f show "client (snd (reconnectToArduino q w)) = h e (client w)"
    if "onError (callbacks w) = Handler h"
    using that by (simp add: r catch_notify_client open_gatt_client_failure)
next
  assume "bluetoothCharacteristic w = Some c \<and> written = Some m"
  then show "fst (sendToArduino data written w) = Inl (PlatformError m)"
    by (simp add: send_with_characteristic)
next
  assume "bluetoothCharacteristic w = None"
  then show "fst (sendToArduino data written w) = Inl NotConnected"
    by (simp add: send_no_characteristic)
next
  assume f: "fst (sendToArduino data written w) = Inl e"
  show "callback_events (trace (snd (sendToArduino data written w))) = callback_events (trace w)"
    by (cases "bluetoothCharacteristic w")
      (simp_all add: send_no_characteristic send_with_characteristic)
  show "client (snd (sendToArduino data written w)) = client w"
    by (cases "bluetoothCharacteristic w")
      (simp_all add: send_no_characteristic send_with_characteristic)
qed


lemma connect_callbacks [simp]: "callbacks (snd (connectToArduino p w)) = callbacks w"
  by (cases "navigator_bluetooth p") (simp_all add: connect_supported connect_unsupported)

lemma service_missing_result:
  "fst (connectToArduino service_missing w) = Inl (PlatformError ''NotFoundError'')"
  "bluetoothDevice (snd (connectToArduino service_missing w)) =
     Some (lumi\<lparr>gatt_connected := True\<rparr>)"
  by (simp_all add: fst_connect connect_failure_def first_rejection_def
      connect_device_after_chooser service_missing_def)

theorem failures_are_rethrown_witness:
  "connect_failure service_missing = Some (PlatformError ''NotFoundError'') \<and>
   fst (connectToArduino service_missing mounted_screen) =
     Inl (PlatformError ''NotFoundError'') \<and>
   onError (callbacks mounted_screen) = onError screen_callbacks \<and>
   callback_events (trace (snd (connectToArduino service_missing mounted_screen))) =
     [CbError (PlatformError ''NotFoundError'')] \<and>
   connectionState (client (snd (connectToArduino service_missing mounted_screen))) = Failed \<and>
   bluetoothDevice (snd (connectToArduino service_missing mounted_screen)) =
     Some (lumi\<lparr>gatt_connected := True\<rparr>) \<and>
   first_rejection gatt_rejects = Some ''NetworkError'' \<and>
   fst (reconnectToArduino gatt_rejects (snd (connectToArduino service_missing mounted_screen))) =
     Inl (PlatformError ''NetworkError'') \<and>
   callback_events (trace (snd (reconnectToArduino gatt_rejects
       (snd (connectToArduino service_missing mounted_screen))))) =
     [CbError (PlatformError ''NotFoundError''), CbError (PlatformError ''NetworkError'')] \<and>
   bluetoothCharacteristic (snd (connectToArduino all_resolve mounted_screen)) =
     Some (Characteristic 1) \<and>
   fst (sendToArduino payload_48 (Some ''NetworkError'')
       (snd (connectToArduino all_resolve mounted_screen))) =
     Inl (PlatformError ''NetworkError'') \<and>
   callback_events (trace (snd (sendToArduino payload_48 (Some ''NetworkError'')
       (snd (connectToArduino all_resolve mounted_screen))))) =
     callback_events (trace (snd (connectToArduino all_resolve mounted_screen))) \<and>
   bluetoothCharacteristic mounted_screen = None \<and>
   fst (sendToArduino payload_48 None mounted_screen) = Inl NotConnected \<and>
   callback_events (trace (snd (sendToArduino payload_48 None mounted_screen))) = []"
proof -
  let ?h = "\<lambda>err scr. setConnectionState Failed (scr\<lparr>error := Some err\<rparr>)"
  let ?wf = "snd (connectToArduino service_missing mounted_screen)"
  let ?wc = "snd (connectToArduino all_resolve mounted_screen)"
  have h: "onError (callbacks mounted_screen) = Handler ?h"
    "onError (callbacks ?wf) = Handler ?h"
    by (simp_all add: mounted_screen_fields) (simp_all add: screen_callbacks_def)
  have cf: "connect_failure service_missing = Some (PlatformError ''NotFoundError'')"
    by (simp add: connect_failure_def first_rejection_def service_missing_def)
  have fr: "first_rejection gatt_rejects = Some ''NetworkError''"
    by (simp add: first_rejection_def gatt_rejects_def)
  have dv: "bluetoothDevice ?wf = Some (lumi\<lparr>gatt_connected := True\<rparr>)"
    by (rule service_missing_result)
  have ch: "bluetoothCharacteristic ?wc = Some (Characteristic 1)"
    by (rule connected_screen_handles)
  have nc: "bluetoothCharacteristic mounted_screen = None"
    by (rule mounted_screen_fields)
  note t = failures_are_rethrown [where p = service_missing and q = gatt_rejects
      and h = ?h and d = "lumi\<lparr>gatt_connected := True\<rparr>" and m = "''NetworkError''"
      and c = "Characteristic 1" and data = payload_48]
  from t [where w = mounted_screen and e = "PlatformError ''NotFoundError''"
      and written = None] cf h(1)
  have 1: "fst (connectToArduino service_missing mounted_screen) =
      Inl (PlatformError ''NotFoundError'')"
    and 2: "callback_events (trace ?wf) = [CbError (PlatformError ''NotFoundError'')]"
    and 3: "connectionState (client ?wf) = Failed"
    by (simp_all add: mounted_screen_fields setConnectionState_def)
  from t [where w = ?wf and e = "PlatformError ''NetworkError''" and written = None] dv fr h(2)
  have 4: "fst (reconnectToArduino gatt_rejects ?wf) = Inl (PlatformError ''NetworkError'')"
    and 5: "callback_events (trace (snd (reconnectToArduino gatt_rejects ?wf))) =
      [CbError (PlatformError ''NotFoundError''), CbError (PlatformError ''NetworkError'')]"
    by (simp_all add: 2)
  from t [where w = ?wc and e = "PlatformError ''NetworkError''"
      and written = "Some ''NetworkError''"] ch
  have 6: "fst (sendToArduino payload_48 (Some ''NetworkError'') ?wc) =
      Inl (PlatformError ''NetworkError'')"
    and 7: "callback_events (trace (snd (sendToArduino payload_48 (Some ''NetworkError'') ?wc))) =
      callback_events (trace ?wc)"
    by simp_all
  from t [where w = mounted_screen and e = NotConnected and written = None] nc
  have 8: "fst (sendToArduino payload_48 None mounted_screen) = Inl NotConnected"
    and 9: "callback_events (trace (snd (sendToArduino payload_48 None mounted_screen))) = []"
    by (simp_all add: mounted_screen_fields)
  have 0: "onError (callbacks mounted_screen) = onError screen_callbacks"
    by (simp add: mounted_screen_fields)
  from cf 1 0 2 3 dv fr 4 5 ch 6 7 nc 8 9 show ?thesis
    by blast
qed

subsection \<open>The onboarding screen\<close>

lemma setConnectionState_fields [simp]:
  "connectionState (setConnectionState s scr) = s"
  "stateLog (setConnectionState s scr) = stateLog scr @ [s]"
  "connectedDevice (setConnectionState s scr) = connectedDevice scr"
  "error (setConnectionState s scr) = error scr"
  by (simp_all add: setConnectionState_def)

lemma open_gatt_client_success:
  "fst (open_gatt p d w) = Inr device \<Longrightarrow> onConnected (callbacks w) = Handler h \<Longrightarrow>
   client (snd (open_gatt p d w)) = h device (client w)"
  by (auto simp: open_gatt_def Let_def call_onConnected_def split: sum.splits option.splits)

lemma connect_client_success:
  assumes "fst (connectToArduino p w) = Inr device" and "onConnected (callbacks w) = Handler h"
  shows "client (snd (connectToArduino p w)) = h device (client w)"
proof (cases "navigator_bluetooth p")
  case False
  with assms show ?thesis by (simp add: connect_unsupported)
next
  case True
  show ?thesis
  proof (cases "requestDevice p")
    case (Inl m)
    with True assms show ?thesis
      by (simp add: connect_supported connect_try_rejected)
  next
    case (Inr d)
    with True assms show ?thesis
      by (simp add: connect_supported connect_try_chosen catch_notify_def
          open_gatt_client_success split: sum.splits)
  qed
qed

lemma connect_succeeds_chooser:
  "connect_succeeds p \<Longrightarrow> \<exists>d. requestDevice p = Inr d"
  by (cases "requestDevice p") (simp_all add: connect_succeeds_def)

lemma connect_succeeds_result:
  assumes "connect_succeeds p" and d: "requestDevice p = Inr d"
  shows "fst (connectToArduino p w) =
       Inr \<lparr>device_id = gid d, device_name = name_or_default d, connected = True\<rparr>"
proof -
  from assms have "first_rejection p = None"
    by (auto simp: connect_succeeds_def gatt_succeeds_def first_rejection_def
        split: sum.splits)
  with assms have "connect_failure p = None"
    by (simp add: connect_failure_def connect_succeeds_def)
  with d show ?thesis by (simp add: fst_connect)
qed

text \<open>
  Whatever device the platform offers, a connect in which every step succeeds takes the
  screen through searching, connected, connecting, in this order: the \<open>onConnected\<close>
  handler runs inside \<open>connectToArduino\<close>, and \<open>handleConnect\<close> sets \<open>"connecting"\<close>
  only after the awaited call has returned.
\<close>

lemma handleConnect_success:
  assumes "connect_succeeds p" and "callbacks w = screen_callbacks"
  shows "stateLog (client (handleConnect p w)) =
           stateLog (client w) @ [Searching, Connected, Connecting]"
    and "connectionState (client (handleConnect p w)) = Connecting"
    and "callback_events (trace (handleConnect p w)) =
           callback_events (trace w) @
           [CbConnected (projr (fst (connectToArduino p w)))]"
    and "connected (projr (fst (connectToArduino p w)))"
proof -
  let ?w1 = "w\<lparr>client := (setConnectionState Searching (client w))\<lparr>error := None\<rparr>\<rparr>"
  let ?h = "\<lambda>device scr.
        (setConnectionState Connected (scr\<lparr>connectedDevice := Some device\<rparr>))\<lparr>error := None\<rparr>"
  from connect_succeeds_chooser [OF assms(1)] obtain d where d: "requestDevice p = Inr d" ..
  note r = connect_succeeds_result [OF assms(1) d]
  have c: "onConnected (callbacks ?w1) = Handler ?h"
    by (simp add: assms(2) screen_callbacks_def)
  from connect_client_success [OF r c]
  have cl: "client (snd (connectToArduino p ?w1)) =
      ?h \<lparr>device_id = gid d, device_name = name_or_default d, connected = True\<rparr> (client ?w1)" .
  have hc: "handleConnect p w =
      (snd (connectToArduino p ?w1))
        \<lparr>client := setConnectionState Connecting (client (snd (connectToArduino p ?w1)))\<rparr>"
    by (simp add: handleConnect_def Let_def r)
  show "stateLog (client (handleConnect p w)) =
           stateLog (client w) @ [Searching, Connected, Connecting]"
    by (simp add: hc cl)
  show "connectionState (client (handleConnect p w)) = Connecting"
    by (simp add: hc)
  show "callback_events (trace (handleConnect p w)) =
           callback_events (trace w) @ [CbConnected (projr (fst (connectToArduino p w)))]"
    by (simp add: hc connect_callback_events r assms(2) screen_callbacks_def)
  show "connected (projr (fst (connectToArduino p w)))"
    by (simp add: r)
qed

text \<open>
  C5 on the code: with the screen's handlers registered and every step of the connect
  succeeding, \<open>onConnected\<close> is invoked exactly once, with a record whose \<open>connected\<close> is
  true, but the screen's state goes searching, connected, connecting and ends in
  \<open>"connecting"\<close>, where the timer that advances the host flow is not armed.
\<close>

theorem handleConnect_ends_connecting:
  "connect_succeeds all_resolve \<and>
   callback_events (trace (handleConnect all_resolve mounted_screen)) =
     [CbConnected \<lparr>device_id = ''lumi-01'', device_name = ''Lumi'', connected = True\<rparr>] \<and>
   connectionState (client mounted_screen) = Idle \<and>
   stateLog (client (handleConnect all_resolve mounted_screen)) =
     [Searching, Connected, Connecting] \<and>
   connectionState (client (handleConnect all_resolve mounted_screen)) = Connecting \<and>
   \<not> auto_advance_armed (client (handleConnect all_resolve mounted_screen))"
proof -
  have s: "connect_succeeds all_resolve"
    by (simp add: connect_succeeds_def gatt_succeeds_def all_resolve_def)
  have c: "callbacks mounted_screen = screen_callbacks"
    by (rule mounted_screen_fields)
  from handleConnect_success [OF s c] s show ?thesis
    by (simp add: mounted_screen_fields fst_connect_all_resolve initial_screen_def
        auto_advance_armed_def)
qed

subsection \<open>The text encoder on ASCII strings\<close>

text \<open>On code units below 128 the encoder writes one byte for each unit, the unit itself.\<close>

lemma not_surrogate_ascii:
  fixes u :: "16 word"
  assumes "u < 0x80"
  shows "\<not> is_high_surrogate u" and "\<not> is_low_surrogate u"
proof -
  from assms have "unat u < 0x80"
    by (simp add: word_less_nat_alt)
  then show "\<not> is_high_surrogate u" and "\<not> is_low_surrogate u"
    by (simp_all add: is_high_surrogate_def is_low_surrogate_def word_le_nat_alt)
qed

lemma scalar_values_ascii:
  "\<forall>u \<in> set s. u < 0x80 \<Longrightarrow> scalar_values s = map unat s"
  by (induction s rule: scalar_values.induct) (simp_all add: not_surrogate_ascii)

lemma utf8_scalar_ascii:
  fixes u :: "16 word"
  assumes "u < 0x80"
  shows "utf8_scalar (unat u) = [ucast u]"
proof -
  from assms have "unat u < 0x80"
    by (simp add: word_less_nat_alt)
  then show ?thesis
    by (simp add: utf8_scalar_def)
qed

lemma encode_ascii:
  "\<forall>u \<in> set s. u < 0x80 \<Longrightarrow> TextEncoder_encode s = map ucast s"
  by (induction s) (simp_all add: TextEncoder_encode_def scalar_values_ascii utf8_scalar_ascii)

subsection \<open>\<open>connectToArduino\<close> with disconnection events\<close>

lemma deliver_simps [simp]:
  "deliver False w = w"
  "deliver True w = onDisconnected_listener w"
  by (simp_all add: deliver_def)

lemma listener_fields [simp]:
  "bluetoothDevice (onDisconnected_listener w) = None"
  "bluetoothServer (onDisconnected_listener w) = None"
  "bluetoothService (onDisconnected_listener w) = None"
  "bluetoothCharacteristic (onDisconnected_listener w) = None"
  "callbacks (onDisconnected_listener w) = callbacks w"
  by (simp_all add: onDisconnected_listener_def)

lemma deliver_callbacks [simp]: "callbacks (deliver b w) = callbacks w"
  by (cases b) simp_all

lemma deliver_device:
  "bluetoothDevice (deliver b w) = (if b then None else bluetoothDevice w)"
  "bluetoothCharacteristic (deliver b w) = (if b then None else bluetoothCharacteristic w)"
  by (cases b; simp)+

text \<open>Without events the call is the one modelled by \<open>connectToArduino\<close>.\<close>

lemma connect_try_no_events: "connect_try_events p no_events w = connect_try p w"
  by (simp add: connect_try_events_def connect_try_def open_gatt_def no_events_def Let_def
      split: sum.splits option.splits)

lemma connect_no_events: "connectToArduino_events p no_events w = connectToArduino p w"
  by (simp add: connectToArduino_events_def connectToArduino_def connect_try_no_events)

lemma connect_try_events_device:
  assumes "navigator_bluetooth p" and "requestDevice p = Inr d"
  shows "bluetoothDevice (snd (connect_try_events p ev w)) =
     (if dropped_after_chooser p ev then None
      else Some (if isl (gatt_connect p) then d else d\<lparr>gatt_connected := True\<rparr>))"
  using assms
  by (cases "drop_in_gatt_connect ev"; cases "drop_in_getPrimaryService ev";
      cases "drop_in_getCharacteristic ev"; cases "drop_in_startNotifications ev")
    (simp_all add: connect_try_events_def dropped_after_chooser_def Let_def
      split: sum.splits option.splits)

lemma connect_events_device:
  assumes "navigator_bluetooth p" and "requestDevice p = Inr d"
  shows "bluetoothDevice (snd (connectToArduino_events p ev w)) =
     (if dropped_after_chooser p ev then None
      else Some (if isl (gatt_connect p) then d else d\<lparr>gatt_connected := True\<rparr>))"
  using assms
  by (simp add: connectToArduino_events_def isBluetoothSupported_def connect_try_events_device)

text \<open>A connect during which the link drops after the chooser resolved never succeeds.\<close>

lemma connect_try_events_dropped_fails:
  assumes "navigator_bluetooth p" and "requestDevice p = Inr d"
    and "dropped_after_chooser p ev"
  shows "isl (fst (connect_try_events p ev w))"
  using assms
  by (cases "drop_in_gatt_connect ev"; cases "drop_in_getPrimaryService ev";
      cases "drop_in_getCharacteristic ev"; cases "drop_in_startNotifications ev")
    (simp_all add: connect_try_events_def dropped_after_chooser_def Let_def
      split: sum.splits option.splits)

lemma connect_events_dropped_fails:
  assumes "navigator_bluetooth p" and "requestDevice p = Inr d"
    and "dropped_after_chooser p ev"
  shows "isl (fst (connectToArduino_events p ev w))"
  using assms
  by (simp add: connectToArduino_events_def isBluetoothSupported_def
      connect_try_events_dropped_fails)


lemma link_lost_result:
  "navigator_bluetooth link_lost"
  "requestDevice link_lost = Inr lumi"
  "dropped_after_chooser link_lost drop_in_service_lookup"
  "fst (connectToArduino_events link_lost drop_in_service_lookup mounted_screen) =
     Inl (PlatformError ''NetworkError'')"
  "trace (snd (connectToArduino_events link_lost drop_in_service_lookup mounted_screen)) =
     [RequestDevice, AddDisconnectListener, GattConnect, GetPrimaryService, CbDisconnected,
      CbError (PlatformError ''NetworkError'')]"
  by (simp_all add: link_lost_def drop_in_service_lookup_def dropped_after_chooser_def
      connectToArduino_events_def connect_try_events_def isBluetoothSupported_def
      catch_notify_def Let_def onDisconnected_listener_def call_onDisconnected_def
      call_onError_def mounted_screen_fields screen_callbacks_def)

text \<open>
  C10, as stated, fails: the connect gets past the chooser and the GATT connection, the
  link is lost during the service lookup, the listener of line 83 sets \<open>bluetoothDevice\<close>
  to \<open>null\<close> and the lookup is rejected. After the failed call \<open>getCurrentDevice\<close> returns
  \<open>null\<close> and \<open>reconnectToArduino\<close> fails with \<open>NoPriorDevice\<close>.
\<close>

theorem link_drop_clears_device:
  "navigator_bluetooth link_lost \<and> requestDevice link_lost = Inr lumi \<and>
   fst (connectToArduino_events link_lost drop_in_service_lookup mounted_screen) =
     Inl (PlatformError ''NetworkError'') \<and>
   trace (snd (connectToArduino_events link_lost drop_in_service_lookup mounted_screen)) =
     [RequestDevice, AddDisconnectListener, GattConnect, GetPrimaryService, CbDisconnected,
      CbError (PlatformError ''NetworkError'')] \<and>
   bluetoothDevice (snd (connectToArduino_events link_lost drop_in_service_lookup mounted_screen))
     = None \<and>
   getCurrentDevice (snd (connectToArduino_events link_lost drop_in_service_lookup mounted_screen))
     = None \<and>
   fst (reconnectToArduino gatt_resolves
     (snd (connectToArduino_events link_lost drop_in_service_lookup mounted_screen))) =
     Inl NoPriorDevice"
proof -
  have d: "bluetoothDevice
      (snd (connectToArduino_events link_lost drop_in_service_lookup mounted_screen)) = None"
    by (simp add: connect_events_device link_lost_result)
  then show ?thesis
    by (simp add: link_lost_result getCurrentDevice_def reconnect_no_device)
qed

text \<open>
  C10, amended. When a connect fails after the chooser resolved and no disconnection
  event reaches the listener while the call is suspended after that, the chosen device
  stays in \<open>bluetoothDevice\<close> whatever was there before the call: \<open>getCurrentDevice\<close>
  returns a record of that device and a following \<open>reconnectToArduino\<close> does not fail
  with \<open>NoPriorDevice\<close>. When such an event does arrive, the listener has cleared the
  handle and the error branch does not put it back: \<open>getCurrentDevice\<close> returns \<open>null\<close>
  and the reconnect fails with \<open>NoPriorDevice\<close>. In both cases nothing restores the
  state from before the call. A call without events is \<open>connectToArduino\<close>.
\<close>

theorem failed_connect_device_handle:
  "connectToArduino_events p no_events w = connectToArduino p w \<and>
   \<not> dropped_after_chooser p no_events \<and>
   (navigator_bluetooth p \<and> requestDevice p = Inr d \<and>
    fst (connectToArduino_events p ev w) = Inl e \<longrightarrow>
      (\<not> dropped_after_chooser p ev \<longrightarrow>
         (bluetoothDevice (snd (connectToArduino_events p ev w)) = Some d \<or>
          bluetoothDevice (snd (connectToArduino_events p ev w)) =
            Some (d\<lparr>gatt_connected := True\<rparr>)) \<and>
         getCurrentDevice (snd (connectToArduino_events p ev w)) \<noteq> None \<and>
         map_option device_id (getCurrentDevice (snd (connectToArduino_events p ev w))) =
           Some (gid d) \<and>
         map_option device_name (getCurrentDevice (snd (connectToArduino_events p ev w))) =
           Some (name_or_default d) \<and>
         fst (reconnectToArduino q (snd (connectToArduino_events p ev w))) \<noteq>
           Inl NoPriorDevice) \<and>
      (dropped_after_chooser p ev \<longrightarrow>
         bluetoothDevice (snd (connectToArduino_events p ev w)) = None \<and>
         getCurrentDevice (snd (connectToArduino_events p ev w)) = None \<and>
         fst (reconnectToArduino q (snd (connectToArduino_events p ev w))) =
           Inl NoPriorDevice))"
proof (intro conjI impI)
  show "connectToArduino_events p no_events w = connectToArduino p w"
    by (rule connect_no_events)
  show "\<not> dropped_after_chooser p no_events"
    by (simp add: dropped_after_chooser_def no_events_def)
next
  assume a: "navigator_bluetooth p \<and> requestDevice p = Inr d \<and>
    fst (connectToArduino_events p ev w) = Inl e"
  assume n: "\<not> dropped_after_chooser p ev"
  from a n have dev: "bluetoothDevice (snd (connectToArduino_events p ev w)) =
     Some (if isl (gatt_connect p) then d else d\<lparr>gatt_connected := True\<rparr>)"
    by (simp add: connect_events_device)
  show "bluetoothDevice (snd (connectToArduino_events p ev w)) = Some d \<or>
      bluetoothDevice (snd (connectToArduino_events p ev w)) = Some (d\<lparr>gatt_connected := True\<rparr>)"
    by (simp add: dev)
  show "getCurrentDevice (snd (connectToArduino_events p ev w)) \<noteq> None"
    by (simp add: getCurrentDevice_def dev)
  show "map_option device_id (getCurrentDevice (snd (connectToArduino_events p ev w))) =
      Some (gid d)"
    by (simp add: getCurrentDevice_def dev)
  show "map_option device_name (getCurrentDevice (snd (connectToArduino_events p ev w))) =
      Some (name_or_default d)"
    by (simp add: getCurrentDevice_def dev name_or_default_def)
  show "fst (reconnectToArduino q (snd (connectToArduino_events p ev w))) \<noteq> Inl NoPriorDevice"
    by (simp add: reconnectToArduino_def dev open_gatt_not_NoPriorDevice)
next
  assume a: "navigator_bluetooth p \<and> requestDevice p = Inr d \<and>
    fst (connectToArduino_events p ev w) = Inl e"
  assume y: "dropped_after_chooser p ev"
  from a y show dev: "bluetoothDevice (snd (connectToArduino_events p ev w)) = None"
    by (simp add: connect_events_device)
  then show "getCurrentDevice (snd (connectToArduino_events p ev w)) = None"
    by (simp add: getCurrentDevice_def)
  from dev show "fst (reconnectToArduino q (snd (connectToArduino_events p ev w))) =
      Inl NoPriorDevice"
    by (simp add: reconnect_no_device)
qed

theorem failed_connect_device_handle_witness:
  "navigator_bluetooth service_missing \<and> requestDevice service_missing = Inr lumi \<and>
   fst (connectToArduino_events service_missing no_events mounted_screen) =
     Inl (PlatformError ''NotFoundError'') \<and>
   \<not> dropped_after_chooser service_missing no_events \<and>
   bluetoothDevice mounted_screen = None \<and>
   getCurrentDevice (snd (connectToArduino_events service_missing no_events mounted_screen)) \<noteq>
     None \<and>
   fst (reconnectToArduino gatt_resolves
     (snd (connectToArduino_events service_missing no_events mounted_screen))) \<noteq>
     Inl NoPriorDevice \<and>
   navigator_bluetooth link_lost \<and> requestDevice link_lost = Inr lumi \<and>
   fst (connectToArduino_events link_lost drop_in_service_lookup mounted_screen) =
     Inl (PlatformError ''NetworkError'') \<and>
   dropped_after_chooser link_lost drop_in_service_lookup \<and>
   getCurrentDevice (snd (connectToArduino_events link_lost drop_in_service_lookup mounted_screen))
     = None"
proof -
  have a: "navigator_bluetooth service_missing" "requestDevice service_missing = Inr lumi"
    by (simp_all add: service_missing_def)
  have b: "fst (connectToArduino_events service_missing no_events mounted_screen) =
      Inl (PlatformError ''NotFoundError'')"
    by (simp add: connect_no_events service_missing_result)
  have c: "\<not> dropped_after_chooser service_missing no_events"
    by (simp add: dropped_after_chooser_def no_events_def)
  note t = failed_connect_device_handle [where w = mounted_screen and q = gatt_resolves
      and d = lumi]
  from t [where p = service_missing and ev = no_events and e = "PlatformError ''NotFoundError''"]
    a b c
  have 1: "getCurrentDevice
      (snd (connectToArduino_events service_missing no_events mounted_screen)) \<noteq> None"
    and 2: "fst (reconnectToArduino gatt_resolves
      (snd (connectToArduino_events service_missing no_events mounted_screen))) \<noteq>
      Inl NoPriorDevice"
    by blast+
  from t [where p = link_lost and ev = drop_in_service_lookup
      and e = "PlatformError ''NetworkError''"] link_lost_result(1-4)
  have 3: "getCurrentDevice
      (snd (connectToArduino_events link_lost drop_in_service_lookup mounted_screen)) = None"
    by blast
  have 4: "bluetoothDevice mounted_screen = None"
    by (rule mounted_screen_fields)
  from a b c 4 1 2 link_lost_result(1-4) 3 show ?thesis
    by blast
qed

subsection \<open>\<open>reconnectToArduino\<close> and the device handle\<close>

text \<open>
  C3, as stated, fails: after a connect in which every step succeeds, a disconnect and
  then a reconnect, the reconnect fails with \<open>NoPriorDevice\<close>, because the disconnect
  has set \<open>bluetoothDevice\<close> to \<open>null\<close>. No GATT call is made.
\<close>

theorem reconnect_after_disconnect_fails:
  "fst (connectToArduino all_resolve mounted_screen) =
     Inr \<lparr>device_id = ''lumi-01'', device_name = ''Lumi'', connected = True\<rparr> \<and>
   bluetoothDevice (snd (connectToArduino all_resolve mounted_screen)) =
     Some (lumi\<lparr>gatt_connected := True\<rparr>) \<and>
   bluetoothDevice (disconnectFromArduino True (snd (connectToArduino all_resolve mounted_screen)))
     = None \<and>
   reconnectToArduino gatt_resolves
     (disconnectFromArduino True (snd (connectToArduino all_resolve mounted_screen))) =
     (Inl NoPriorDevice,
      disconnectFromArduino True (snd (connectToArduino all_resolve mounted_screen)))"
proof -
  have n: "handles_null
      (disconnectFromArduino True (snd (connectToArduino all_resolve mounted_screen)))"
    by (rule handles_null_disconnect)
  then have d: "bluetoothDevice
      (disconnectFromArduino True (snd (connectToArduino all_resolve mounted_screen))) = None"
    by (simp add: handles_null_def)
  from d show ?thesis
    by (simp add: fst_connect_all_resolve connected_screen_handles reconnect_no_device)
qed


lemma open_gatt_added:
  "take 1 (drop (length (trace w)) (trace (snd (open_gatt q d w)))) = [GattConnect]"
  "RequestDevice \<notin> set (drop (length (trace w)) (trace (snd (open_gatt q d w))))"
  by (simp_all add: open_gatt_def Let_def trace_call_onConnected
      split: sum.splits option.splits slot.splits)

lemma catch_notify_added:
  assumes "length (trace w) < length (trace (snd rw))"
  shows "take 1 (drop (length (trace w)) (trace (snd (catch_notify rw)))) =
           take 1 (drop (length (trace w)) (trace (snd rw)))"
    and "set (drop (length (trace w)) (trace (snd (catch_notify rw)))) \<subseteq>
           set (drop (length (trace w)) (trace (snd rw))) \<union> range CbError"
  using assms
  by (auto simp: catch_notify_def trace_call_onError split: sum.splits slot.splits)

lemma open_gatt_grows: "length (trace w) < length (trace (snd (open_gatt q d w)))"
  by (simp add: open_gatt_def Let_def trace_call_onConnected
      split: sum.splits option.splits slot.splits)

lemma open_gatt_resolves:
  assumes "gatt_connect q = Inr server" and "getPrimaryService q = Inr service"
    and "getCharacteristic q = Inr c" and "startNotifications q = None"
  shows "open_gatt q d w =
     (Inr \<lparr>device_id = gid d, device_name = name_or_default d, connected = True\<rparr>,
      call_onConnected \<lparr>device_id = gid d, device_name = name_or_default d, connected = True\<rparr>
        (w\<lparr>bluetoothDevice := Some (d\<lparr>gatt_connected := True\<rparr>),
           bluetoothServer := Some server, bluetoothService := Some service,
           bluetoothCharacteristic := Some c,
           trace := trace w @ [GattConnect, GetPrimaryService, GetCharacteristic,
                               StartNotifications, AddValueListener]\<rparr>))"
  using assms by (simp add: open_gatt_def Let_def platform_call_def name_or_default_def)

text \<open>
  C3, amended. The chosen device does not survive a disconnect: after any connect
  followed by a disconnect, \<open>reconnectToArduino\<close> fails with \<open>NoPriorDevice\<close> and does
  nothing else. It is while the module holds a device, as it does after a connect in
  which every step succeeded, that a reconnect does not fail with \<open>NoPriorDevice\<close>: it
  starts with \<open>gatt.connect()\<close> on the held device and never presents the chooser, and
  when the four GATT steps resolve it returns the record of that device, holds the four
  handles and has made exactly the calls of the sequence, followed by \<open>onConnected\<close>.
\<close>

theorem reconnect_needs_held_device:
  "reconnectToArduino q (disconnectFromArduino fires (snd (connectToArduino p w))) =
     (Inl NoPriorDevice, disconnectFromArduino fires (snd (connectToArduino p w))) \<and>
   (connect_succeeds p \<longrightarrow>
      fst (reconnectToArduino q (snd (connectToArduino p w))) \<noteq> Inl NoPriorDevice) \<and>
   (bluetoothDevice w = Some d \<longrightarrow>
      fst (reconnectToArduino q w) \<noteq> Inl NoPriorDevice \<and>
      take 1 (drop (length (trace w)) (trace (snd (reconnectToArduino q w)))) = [GattConnect] \<and>
      RequestDevice \<notin> set (drop (length (trace w)) (trace (snd (reconnectToArduino q w))))) \<and>
   (bluetoothDevice w = Some d \<and> gatt_connect q = Inr server \<and>
    getPrimaryService q = Inr service \<and> getCharacteristic q = Inr c \<and>
    startNotifications q = None \<longrightarrow>
      fst (reconnectToArduino q w) =
        Inr \<lparr>device_id = gid d, device_name = name_or_default d, connected = True\<rparr> \<and>
      bluetoothDevice (snd (reconnectToArduino q w)) = Some (d\<lparr>gatt_connected := True\<rparr>) \<and>
      bluetoothServer (snd (reconnectToArduino q w)) = Some server \<and>
      bluetoothService (snd (reconnectToArduino q w)) = Some service \<and>
      bluetoothCharacteristic (snd (reconnectToArduino q w)) = Some c \<and>
      trace (snd (reconnectToArduino q w)) =
        trace w @
        [GattConnect, GetPrimaryService, GetCharacteristic, StartNotifications,
         AddValueListener] @
        (case onConnected (callbacks w) of
           Handler h \<Rightarrow>
             [CbConnected
                \<lparr>device_id = gid d, device_name = name_or_default d, connected = True\<rparr>]
         | _ \<Rightarrow> []))"
proof (intro conjI impI)
  have "bluetoothDevice (disconnectFromArduino fires (snd (connectToArduino p w))) = None"
    using handles_null_disconnect [of fires "snd (connectToArduino p w)"]
    by (simp add: handles_null_def)
  then show "reconnectToArduino q (disconnectFromArduino fires (snd (connectToArduino p w))) =
     (Inl NoPriorDevice, disconnectFromArduino fires (snd (connectToArduino p w)))"
    by (rule reconnect_no_device)
next
  assume s: "connect_succeeds p"
  then obtain dv where dv: "requestDevice p = Inr dv"
    by (cases "requestDevice p") (simp_all add: connect_succeeds_def)
  from s have "navigator_bluetooth p"
    by (simp add: connect_succeeds_def)
  then have "bluetoothDevice (snd (connectToArduino p w)) =
     Some (if isl (gatt_connect p) then dv else dv\<lparr>gatt_connected := True\<rparr>)"
    using dv by (rule connect_device_after_chooser)
  then show "fst (reconnectToArduino q (snd (connectToArduino p w))) \<noteq> Inl NoPriorDevice"
    by (simp add: reconnectToArduino_def open_gatt_not_NoPriorDevice)
next
  assume d: "bluetoothDevice w = Some d"
  then have r: "reconnectToArduino q w = catch_notify (open_gatt q d w)"
    by (simp add: reconnectToArduino_def)
  show "fst (reconnectToArduino q w) \<noteq> Inl NoPriorDevice"
    by (simp add: r open_gatt_not_NoPriorDevice)
  from catch_notify_added(1) [OF open_gatt_grows, of w q d] open_gatt_added(1) [of w q d]
  show "take 1 (drop (length (trace w)) (trace (snd (reconnectToArduino q w)))) = [GattConnect]"
    by (simp add: r)
  from catch_notify_added(2) [OF open_gatt_grows, of w q d] open_gatt_added(2) [of w q d]
  show "RequestDevice \<notin> set (drop (length (trace w)) (trace (snd (reconnectToArduino q w))))"
    by (auto simp: r)
next
  assume a: "bluetoothDevice w = Some d \<and> gatt_connect q = Inr server \<and>
    getPrimaryService q = Inr service \<and> getCharacteristic q = Inr c \<and>
    startNotifications q = None"
  then have r: "reconnectToArduino q w = catch_notify (open_gatt q d w)"
    by (simp add: reconnectToArduino_def)
  from a have o: "open_gatt q d w =
     (Inr \<lparr>device_id = gid d, device_name = name_or_default d, connected = True\<rparr>,
      call_onConnected \<lparr>device_id = gid d, device_name = name_or_default d, connected = True\<rparr>
        (w\<lparr>bluetoothDevice := Some (d\<lparr>gatt_connected := True\<rparr>),
           bluetoothServer := Some server, bluetoothService := Some service,
           bluetoothCharacteristic := Some c,
           trace := trace w @ [GattConnect, GetPrimaryService, GetCharacteristic,
                               StartNotifications, AddValueListener]\<rparr>))"
    by (simp add: open_gatt_resolves)
  show "fst (reconnectToArduino q w) =
        Inr \<lparr>device_id = gid d, device_name = name_or_default d, connected = True\<rparr>"
    by (simp add: r o)
  show "bluetoothDevice (snd (reconnectToArduino q w)) = Some (d\<lparr>gatt_connected := True\<rparr>)"
    by (simp add: r o)
  show "bluetoothServer (snd (reconnectToArduino q w)) = Some server"
    by (simp add: r o)
  show "bluetoothService (snd (reconnectToArduino q w)) = Some service"
    by (simp add: r o)
  show "bluetoothCharacteristic (snd (reconnectToArduino q w)) = Some c"
    by (simp add: r o)
  show "trace (snd (reconnectToArduino q w)) =
        trace w @
        [GattConnect, GetPrimaryService, GetCharacteristic, StartNotifications,
         AddValueListener] @
        (case onConnected (callbacks w) of
           Handler h \<Rightarrow>
             [CbConnected
                \<lparr>device_id = gid d, device_name = name_or_default d, connected = True\<rparr>]
         | _ \<Rightarrow> [])"
    by (simp add: r o catch_notify_def trace_call_onConnected split: slot.splits)
qed


theorem reconnect_needs_held_device_witness:
  "connect_succeeds all_resolve \<and>
   bluetoothDevice (snd (connectToArduino all_resolve mounted_screen)) =
     Some (lumi\<lparr>gatt_connected := True\<rparr>) \<and>
   gatt_connect gatt_resolves = Inr (Server 2) \<and>
   getPrimaryService gatt_resolves = Inr (Service 2) \<and>
   getCharacteristic gatt_resolves = Inr (Characteristic 2) \<and>
   startNotifications gatt_resolves = None \<and>
   fst (reconnectToArduino gatt_resolves (snd (connectToArduino all_resolve mounted_screen))) =
     Inr \<lparr>device_id = ''lumi-01'', device_name = ''Lumi'', connected = True\<rparr> \<and>
   bluetoothCharacteristic
     (snd (reconnectToArduino gatt_resolves (snd (connectToArduino all_resolve mounted_screen)))) =
     Some (Characteristic 2) \<and>
   take 1 (drop (length (trace (snd (connectToArduino all_resolve mounted_screen))))
     (trace (snd (reconnectToArduino gatt_resolves
        (snd (connectToArduino all_resolve mounted_screen)))))) = [GattConnect] \<and>
   fst (reconnectToArduino gatt_resolves
     (disconnectFromArduino True (snd (connectToArduino all_resolve mounted_screen)))) =
     Inl NoPriorDevice"
proof -
  let ?wc = "snd (connectToArduino all_resolve mounted_screen)"
  have s: "connect_succeeds all_resolve"
    by (simp add: connect_succeeds_def gatt_succeeds_def all_resolve_def)
  have d: "bluetoothDevice ?wc = Some (lumi\<lparr>gatt_connected := True\<rparr>)"
    by (rule connected_screen_handles)
  have g: "gatt_connect gatt_resolves = Inr (Server 2)"
    "getPrimaryService gatt_resolves = Inr (Service 2)"
    "getCharacteristic gatt_resolves = Inr (Characteristic 2)"
    "startNotifications gatt_resolves = None"
    by (simp_all add: gatt_resolves_def)
  note t = reconnect_needs_held_device [where q = gatt_resolves and fires = True
      and p = all_resolve and d = "lumi\<lparr>gatt_connected := True\<rparr>" and server = "Server 2"
      and service = "Service 2" and c = "Characteristic 2"]
  from t [where w = ?wc] d g
  have 1: "fst (reconnectToArduino gatt_resolves ?wc) =
      Inr \<lparr>device_id = ''lumi-01'', device_name = ''Lumi'', connected = True\<rparr>"
    and 2: "bluetoothCharacteristic (snd (reconnectToArduino gatt_resolves ?wc)) =
      Some (Characteristic 2)"
    and 3: "take 1 (drop (length (trace ?wc))
      (trace (snd (reconnectToArduino gatt_resolves ?wc)))) = [GattConnect]"
    by (simp_all add: lumi_def name_or_default_def)
  from t [where w = mounted_screen] s
  have 4: "fst (reconnectToArduino gatt_resolves (disconnectFromArduino True ?wc)) =
      Inl NoPriorDevice"
    and 5: "fst (reconnectToArduino gatt_resolves ?wc) \<noteq> Inl NoPriorDevice"
    by simp_all
  from s d g 1 2 3 4 show ?thesis
    by blast
qed

end
